theory Spec2Isabelle
  imports Main "HOL-Library.Char_ord" "HOL-Library.List_Lexorder" "HOL-Library.Multiset"
begin

section \<open>Strings\<close>

text \<open>
  Python strings are modelled as \<open>string\<close> (lists of 8-bit characters), so the model
  covers ASCII text. \<open>str.lower()\<close> maps \<open>A\<close>..\<open>Z\<close> to \<open>a\<close>..\<open>z\<close> and leaves
  every other character alone; \<open>str.strip()\<close> removes leading and trailing white space
  (tab, line feed, vertical tab, form feed, carriage return, the separators
  \<open>0x1c\<close>..\<open>0x1f\<close>, and space).
\<close>

definition lower_char :: "char \<Rightarrow> char" where
  "lower_char c =
     (case map_of (zip ''ABCDEFGHIJKLMNOPQRSTUVWXYZ'' ''abcdefghijklmnopqrstuvwxyz'') c of
        None \<Rightarrow> c
      | Some l \<Rightarrow> l)"

definition lower :: "string \<Rightarrow> string" where
  "lower s = map lower_char s"

definition is_space :: "char \<Rightarrow> bool" where
  "is_space c =
     (c \<in> set [CHR 0x09, CHR 0x0A, CHR 0x0B, CHR 0x0C, CHR 0x0D,
                CHR 0x1C, CHR 0x1D, CHR 0x1E, CHR 0x1F, CHR '' ''])"

definition strip :: "string \<Rightarrow> string" where
  "strip s = rev (dropWhile is_space (rev (dropWhile is_space s)))"

text \<open>
  The database operator behind the \<open>icontains\<close> lookup: the pattern occurs in the
  text as a contiguous run, after both are put in lower case.
\<close>

fun starts_with :: "string \<Rightarrow> string \<Rightarrow> bool" where
  "starts_with [] ys = True"
| "starts_with (x # xs) [] = False"
| "starts_with (x # xs) (y # ys) = (x = y \<and> starts_with xs ys)"

fun contains :: "string \<Rightarrow> string \<Rightarrow> bool" where
  "contains xs [] = (xs = [])"
| "contains xs (y # ys) = (starts_with xs (y # ys) \<or> contains xs ys)"

definition icontains :: "string \<Rightarrow> string \<Rightarrow> bool" where
  "icontains field q = contains (lower q) (lower field)"

section \<open>The data model (models.py)\<close>

text \<open>
  One record per model class; a table is the list of its rows. Primary keys and
  foreign keys are row numbers (\<open>nat\<close>); a nullable column is an \<open>option\<close>.
  Decimal columns carry their value in the column's smallest unit (millionths of a
  degree for coordinates, hundredths for liters and cost); dates and timestamps are
  points on a clock of natural numbers. \<open>vehicle_seq\<close> is the key sequence of the
  vehicle table: the largest key the table has ever given out, so that the key of
  a deleted row is not given out again.
\<close>

record user =
  user_id :: nat
  username :: string
  is_superuser :: bool

record profile =
  profile_id :: nat
  profile_user :: nat
  role :: string

record vehicle =
  vehicle_id :: nat
  registration_no :: string
  veh_make :: string
  model :: string
  year :: "int option"
  status :: string
  current_driver :: "nat option"
  latitude :: "int option"
  longitude :: "int option"
  last_location_time :: "nat option"

record maintenance_log =
  mlog_id :: nat
  mlog_vehicle :: nat
  description :: string
  mlog_date :: nat
  next_due :: "nat option"
  mlog_created_by :: "nat option"

record fuel_log =
  flog_id :: nat
  flog_vehicle :: nat
  flog_date :: nat
  liters :: int
  cost :: int
  odometer :: "nat option"
  flog_created_by :: "nat option"

record store =
  users :: "user list"
  profiles :: "profile list"
  vehicles :: "vehicle list"
  vehicle_seq :: nat
  maintenance_logs :: "maintenance_log list"
  fuel_logs :: "fuel_log list"

definition get_user :: "store \<Rightarrow> nat \<Rightarrow> user option" where
  "get_user s uid = find (\<lambda>u. user_id u = uid) (users s)"

text \<open>\<open>user.profile\<close>: the reverse side of the one-to-one field, looked up by user.\<close>

definition get_profile :: "store \<Rightarrow> nat \<Rightarrow> profile option" where
  "get_profile s uid = find (\<lambda>p. profile_user p = uid) (profiles s)"

definition get_vehicle :: "store \<Rightarrow> nat \<Rightarrow> vehicle option" where
  "get_vehicle s pk = find (\<lambda>v. vehicle_id v = pk) (vehicles s)"

section \<open>Requests and responses\<close>

text \<open>
  \<open>req_user = None\<close> is Django's anonymous user: not authenticated, not a superuser,
  without a profile. An exception that leaves a view is a value: \<open>PermissionDenied\<close>
  (rendered as the 403 page by \<open>handler403\<close>), \<open>Http404\<close> from
  \<open>get_object_or_404\<close>, \<open>DoesNotExist\<close> when a foreign key is followed to a row
  that is not there, \<open>GeocoderError\<close> for whatever the geocoding client raises,
  \<open>ValueError\<close> from saving a form that did not validate, and \<open>IntegrityError\<close>
  from the database when a row would break a unique column.
  A view returns its outcome together with the store it leaves. \<open>dict_get\<close> is
  the \<open>get\<close> of a query dictionary with its default.
\<close>

record request =
  req_method :: string
  req_user :: "user option"
  req_GET :: "string \<rightharpoonup> string"
  req_POST :: "string \<rightharpoonup> string"

datatype exn =
  PermissionDenied | Http404 | DoesNotExist | GeocoderError | ValueError | IntegrityError

definition dict_get :: "(string \<rightharpoonup> string) \<Rightarrow> string \<Rightarrow> string \<Rightarrow> string" where
  "dict_get m k d = (case m k of None \<Rightarrow> d | Some x \<Rightarrow> x)"

datatype 'c response = Render string 'c | Redirect string | JsonResponse 'c

type_synonym 'c outcome = "exn + 'c response"

type_synonym 'c view = "request \<Rightarrow> store \<Rightarrow> 'c outcome \<times> store"

section \<open>The authorization gate (views.py)\<close>

definition is_app_admin :: "store \<Rightarrow> user option \<Rightarrow> bool" where
  "is_app_admin s usr =
     (case usr of
        None \<Rightarrow> False
      | Some u \<Rightarrow>
          if is_superuser u then True
          else (case get_profile s (user_id u) of
                  None \<Rightarrow> False
                | Some p \<Rightarrow> lower (role p) = ''admin''))"

definition get_user_role :: "store \<Rightarrow> user option \<Rightarrow> string option" where
  "get_user_role s usr =
     (case usr of
        None \<Rightarrow> None
      | Some u \<Rightarrow>
          (case get_profile s (user_id u) of
             None \<Rightarrow> None
           | Some p \<Rightarrow> Some (lower (role p))))"

definition login_required :: "string \<Rightarrow> 'c view \<Rightarrow> 'c view" where
  "login_required login_url view_func request s =
     (case req_user request of
        None \<Rightarrow> (Inr (Redirect login_url), s)
      | Some u \<Rightarrow> view_func request s)"

definition role_wrapped :: "string list \<Rightarrow> 'c view \<Rightarrow> 'c view" where
  "role_wrapped allowed_roles view_func request s =
     (if (case req_user request of None \<Rightarrow> False | Some u \<Rightarrow> is_superuser u)
         \<or> is_app_admin s (req_user request)
      then view_func request s
      else (case get_user_role s (req_user request) of
              None \<Rightarrow> (Inl PermissionDenied, s)
            | Some r \<Rightarrow>
                if r \<in> set allowed_roles then view_func request s
                else (Inl PermissionDenied, s)))"

definition role_required :: "string list \<Rightarrow> 'c view \<Rightarrow> 'c view" where
  "role_required allowed_roles view_func =
     login_required ''login'' (role_wrapped (map lower allowed_roles) view_func)"

section \<open>Login and the dashboard (views.py)\<close>

text \<open>
  The credential check is outside the program: \<open>authenticate\<close> is a parameter
  that returns the user a username and password belong to, or nothing. The session
  is the key of the logged-in user, if any: \<open>login\<close> stores it, \<open>logout\<close> clears it.
  The context of the login page is its error message.
\<close>

definition login_view ::
  "(string \<Rightarrow> string \<Rightarrow> user option) \<Rightarrow> request \<Rightarrow> store \<Rightarrow> nat option
    \<Rightarrow> string option response \<times> nat option" where
  "login_view authenticate request s session =
     (if req_method request = ''POST'' then
        (let username' = strip (dict_get (req_POST request) ''username'' []);
             password = dict_get (req_POST request) ''password'' []
         in case authenticate username' password of
              None \<Rightarrow> (Render ''login.html'' (Some ''Invalid credentials''), session)
            | Some usr \<Rightarrow>
                (let logged_in = Some (user_id usr);
                     role' = get_user_role s (Some usr)
                 in if role' = Some ''admin'' \<or> (role' = None \<and> is_superuser usr)
                    then (Redirect ''admin_dashboard'', logged_in)
                    else if role' = Some ''staff'' then (Redirect ''staff_dashboard'', logged_in)
                    else if role' = Some ''driver'' then (Redirect ''driver_dashboard'', logged_in)
                    else (Render ''login.html'' (Some ''Role not assigned to this user.''), None)))
      else (Render ''login.html'' None, session))"

record chart_data =
  total_vehicles :: nat
  cd_assigned :: nat
  not_assigned :: nat
  under_maintenance :: nat
  active :: nat

record dashboard_context =
  dc_vehicles :: "vehicle list"
  dc_profiles :: "profile list"
  dc_maintenance_logs :: "maintenance_log list"
  dc_fuel_logs :: "fuel_log list"
  dc_chart_data :: chart_data

definition admin_dashboard_view :: "dashboard_context view" where
  "admin_dashboard_view request s =
     (let vs = vehicles s
      in (Inr (Render ''admin/admin_dashboard.html''
            \<lparr>dc_vehicles = vs,
             dc_profiles = profiles s,
             dc_maintenance_logs = maintenance_logs s,
             dc_fuel_logs = fuel_logs s,
             dc_chart_data =
               \<lparr>total_vehicles = length vs,
                cd_assigned = length (filter (\<lambda>v. current_driver v \<noteq> None) vs),
                not_assigned = length (filter (\<lambda>v. current_driver v = None) vs),
                under_maintenance = length (filter (\<lambda>v. status v = ''maintenance'') vs),
                active = length (filter (\<lambda>v. status v = ''active'') vs)\<rparr>\<rparr>), s))"

definition admin_dashboard :: "dashboard_context view" where
  "admin_dashboard = role_required [''admin''] admin_dashboard_view"

section \<open>Vehicle detail, list and location feed (views.py)\<close>

text \<open>
  \<open>order_by("-date")[:10]\<close>: the ten rows with the latest dates, latest first.
  Rows of one date stay in table order, which is the order of their keys.
\<close>

definition order_by_desc :: "('a \<Rightarrow> nat) \<Rightarrow> 'a list \<Rightarrow> 'a list" where
  "order_by_desc f xs = rev (sort_key f (rev xs))"

record detail_context =
  dt_vehicle :: vehicle
  dt_maintenance :: "maintenance_log list"
  dt_fuel_logs :: "fuel_log list"

definition detail_of :: "store \<Rightarrow> vehicle \<Rightarrow> detail_context" where
  "detail_of s v =
     \<lparr>dt_vehicle = v,
      dt_maintenance =
        take 10 (order_by_desc mlog_date
          (filter (\<lambda>m. mlog_vehicle m = vehicle_id v) (maintenance_logs s))),
      dt_fuel_logs =
        take 10 (order_by_desc flog_date
          (filter (\<lambda>f. flog_vehicle f = vehicle_id v) (fuel_logs s)))\<rparr>"

definition vehicle_detail_view :: "nat \<Rightarrow> detail_context view" where
  "vehicle_detail_view pk request s =
     (case get_vehicle s pk of
        None \<Rightarrow> (Inl Http404, s)
      | Some v \<Rightarrow>
          if get_user_role s (req_user request) = Some ''driver''
             \<and> current_driver v \<noteq> map_option user_id (req_user request)
             \<and> \<not> is_app_admin s (req_user request)
          then (Inl PermissionDenied, s)
          else (Inr (Render ''vehicles/detail.html'' (detail_of s v)), s))"

definition vehicle_detail :: "nat \<Rightarrow> detail_context view" where
  "vehicle_detail pk = role_required [''admin'', ''staff'', ''driver''] (vehicle_detail_view pk)"

record list_stats =
  total :: nat
  assigned :: nat
  maintenance :: nat

record list_context =
  lc_vehicles :: "vehicle list"
  lc_q :: string
  lc_status_active :: string
  lc_stats :: list_stats

definition vehicle_list_view :: "list_context view" where
  "vehicle_list_view request s =
     (let q = strip (dict_get (req_GET request) ''q'' []);
          status' = strip (dict_get (req_GET request) ''status'' []);
          qs = vehicles s;
          qs = (if q \<noteq> [] then
                  filter (\<lambda>v. icontains (registration_no v) q \<or> icontains (veh_make v) q
                              \<or> icontains (model v) q) qs
                else qs);
          qs = (if status' \<noteq> [] then filter (\<lambda>v. status v = status') qs else qs)
      in (Inr (Render ''vehicles/list.html''
            \<lparr>lc_vehicles = sort_key registration_no qs,
             lc_q = q,
             lc_status_active = status',
             lc_stats =
               \<lparr>total = length qs,
                assigned = length (filter (\<lambda>v. current_driver v \<noteq> None) qs),
                maintenance = length (filter (\<lambda>v. status v = ''maintenance'') qs)\<rparr>\<rparr>), s))"

definition vehicle_list :: "list_context view" where
  "vehicle_list = role_required [''admin'', ''staff''] vehicle_list_view"

text \<open>
  The feed. \<open>v.current_driver\<close> follows the foreign key: no driver when the column
  is null, \<open>DoesNotExist\<close> when it names a user that is not there. \<open>float(lat)\<close>
  and \<open>isoformat()\<close> are not modelled: an entry carries the column's value.
\<close>

record track_entry =
  e_id :: nat
  e_reg :: string
  e_make :: string
  e_model :: string
  e_status :: string
  e_driver :: "string option"
  e_lat :: int
  e_lng :: int
  e_updated :: "nat option"

definition driver_of :: "store \<Rightarrow> vehicle \<Rightarrow> exn + user option" where
  "driver_of s v =
     (case current_driver v of
        None \<Rightarrow> Inr None
      | Some uid \<Rightarrow>
          (case get_user s uid of None \<Rightarrow> Inl DoesNotExist | Some u \<Rightarrow> Inr (Some u)))"

definition entry_of :: "vehicle \<Rightarrow> user option \<Rightarrow> int \<Rightarrow> int \<Rightarrow> track_entry" where
  "entry_of v driver lat lng =
     \<lparr>e_id = vehicle_id v,
      e_reg = registration_no v,
      e_make = veh_make v,
      e_model = model v,
      e_status = status v,
      e_driver = map_option username driver,
      e_lat = lat,
      e_lng = lng,
      e_updated = last_location_time v\<rparr>"

fun track_loop :: "store \<Rightarrow> vehicle list \<Rightarrow> track_entry list \<Rightarrow> exn + track_entry list" where
  "track_loop s [] data = Inr data"
| "track_loop s (v # vs) data =
     (case latitude v of
        None \<Rightarrow> track_loop s vs data
      | Some lat \<Rightarrow>
          (case longitude v of
             None \<Rightarrow> track_loop s vs data
           | Some lng \<Rightarrow>
               (case driver_of s v of
                  Inl e \<Rightarrow> Inl e
                | Inr driver \<Rightarrow> track_loop s vs (data @ [entry_of v driver lat lng]))))"

definition vehicle_track_data_view :: "track_entry list view" where
  "vehicle_track_data_view request s =
     (case track_loop s (vehicles s) [] of
        Inl e \<Rightarrow> (Inl e, s)
      | Inr data \<Rightarrow> (Inr (JsonResponse data), s))"

definition vehicle_track_data :: "track_entry list view" where
  "vehicle_track_data = role_required [''admin'', ''staff''] vehicle_track_data_view"

section \<open>Model forms (views.py, with the field declarations of models.py)\<close>

text \<open>
  A bound form is the record of its fields as posted, numbers and keys already
  read. Validation follows the declarations: a character field is stripped, must
  be non-empty when required and fit \<open>max_length\<close>; \<open>year\<close> is not negative
  (an upper end of its range is the database backend's: the default backend sets
  none that a year reaches, and the model sets none); \<open>status\<close> is one of \<open>STATUS_CHOICES\<close>; \<open>current_driver\<close> is optional and
  must be a key of the form's queryset, the users whose profile role is "driver"
  up to case (\<open>profile__role__iexact\<close>); and \<open>registration_no\<close>, declared
  \<open>unique=True\<close>, must not be the registration number of another row. The
  uniqueness check runs only on a value that passed its field's own checks.
  The errors of a form are the pairs of a field name and an error code.
\<close>

datatype form_error = Required | MaxLength | InvalidChoice | MinValue | Unique

type_synonym form_errors = "(string \<times> form_error) list"

record vehicle_form_data =
  f_registration_no :: string
  f_make :: string
  f_model :: string
  f_year :: "int option"
  f_status :: string
  f_current_driver :: "nat option"
  f_place_name :: string

record assign_form_data =
  a_current_driver :: "nat option"
  a_status :: string

definition STATUS_CHOICES :: "string list" where
  "STATUS_CHOICES = [''active'', ''inactive'', ''maintenance'']"

definition clean_char :: "bool \<Rightarrow> nat option \<Rightarrow> string \<Rightarrow> form_error + string" where
  "clean_char required max_length raw =
     (let v = strip raw
      in if v = [] then (if required then Inl Required else Inr v)
         else (case max_length of
                 None \<Rightarrow> Inr v
               | Some n \<Rightarrow> if length v > n then Inl MaxLength else Inr v))"

definition clean_year :: "int option \<Rightarrow> form_error + int option" where
  "clean_year y =
     (case y of
        None \<Rightarrow> Inr None
      | Some n \<Rightarrow> if n < 0 then Inl MinValue else Inr (Some n))"

definition clean_status :: "string \<Rightarrow> form_error + string" where
  "clean_status raw =
     (if raw = [] then Inl Required
      else if raw \<in> set STATUS_CHOICES then Inr raw else Inl InvalidChoice)"

definition driver_queryset :: "store \<Rightarrow> user list" where
  "driver_queryset s =
     filter (\<lambda>u. list_ex (\<lambda>p. profile_user p = user_id u \<and> lower (role p) = lower ''driver'')
                    (profiles s))
       (users s)"

definition clean_current_driver :: "store \<Rightarrow> nat option \<Rightarrow> form_error + nat option" where
  "clean_current_driver s d =
     (case d of
        None \<Rightarrow> Inr None
      | Some uid \<Rightarrow>
          if list_ex (\<lambda>u. user_id u = uid) (driver_queryset s) then Inr (Some uid)
          else Inl InvalidChoice)"

definition field_errors :: "string \<Rightarrow> form_error + 'a \<Rightarrow> form_errors" where
  "field_errors name r = (case r of Inl e \<Rightarrow> [(name, e)] | Inr v \<Rightarrow> [])"

definition validate_unique :: "store \<Rightarrow> nat option \<Rightarrow> form_error + string \<Rightarrow> form_errors" where
  "validate_unique s instance_pk r =
     (case r of
        Inl e \<Rightarrow> []
      | Inr reg \<Rightarrow>
          if list_ex (\<lambda>v. registration_no v = reg \<and> Some (vehicle_id v) \<noteq> instance_pk) (vehicles s)
          then [(''registration_no'', Unique)] else [])"

definition VehicleForm_errors :: "store \<Rightarrow> nat option \<Rightarrow> vehicle_form_data \<Rightarrow> form_errors" where
  "VehicleForm_errors s instance_pk d =
     field_errors ''registration_no'' (clean_char True (Some 30) (f_registration_no d))
     @ field_errors ''make'' (clean_char False (Some 50) (f_make d))
     @ field_errors ''model'' (clean_char False (Some 50) (f_model d))
     @ field_errors ''year'' (clean_year (f_year d))
     @ field_errors ''status'' (clean_status (f_status d))
     @ field_errors ''current_driver'' (clean_current_driver s (f_current_driver d))
     @ field_errors ''place_name'' (clean_char False None (f_place_name d))
     @ validate_unique s instance_pk (clean_char True (Some 30) (f_registration_no d))"

definition AssignVehicleForm_errors :: "store \<Rightarrow> assign_form_data \<Rightarrow> form_errors" where
  "AssignVehicleForm_errors s d =
     field_errors ''current_driver'' (clean_current_driver s (a_current_driver d))
     @ field_errors ''status'' (clean_status (a_status d))"

text \<open>
  \<open>construct_instance\<close>, which validation runs whether or not the form is valid:
  the cleaned value of every model field of the form that passed its own checks is
  written into the instance; every other column keeps its value. A new instance
  has no key yet (the store gives it one on insertion), the default status, and no
  driver or location.
\<close>

definition new_vehicle :: vehicle where
  "new_vehicle =
     \<lparr>vehicle_id = 0, registration_no = [], veh_make = [], model = [], year = None,
      status = ''active'', current_driver = None, latitude = None, longitude = None,
      last_location_time = None\<rparr>"

definition set_cleaned :: "form_error + 'a \<Rightarrow> ('a \<Rightarrow> vehicle \<Rightarrow> vehicle) \<Rightarrow> vehicle \<Rightarrow> vehicle" where
  "set_cleaned r write instance = (case r of Inl e \<Rightarrow> instance | Inr x \<Rightarrow> write x instance)"

definition construct_vehicle :: "store \<Rightarrow> vehicle \<Rightarrow> vehicle_form_data \<Rightarrow> vehicle" where
  "construct_vehicle s instance d =
     (set_cleaned (clean_current_driver s (f_current_driver d)) (\<lambda>x i. i\<lparr>current_driver := x\<rparr>)
      (set_cleaned (clean_status (f_status d)) (\<lambda>x i. i\<lparr>status := x\<rparr>)
      (set_cleaned (clean_year (f_year d)) (\<lambda>x i. i\<lparr>year := x\<rparr>)
      (set_cleaned (clean_char False (Some 50) (f_model d)) (\<lambda>x i. i\<lparr>model := x\<rparr>)
      (set_cleaned (clean_char False (Some 50) (f_make d)) (\<lambda>x i. i\<lparr>veh_make := x\<rparr>)
      (set_cleaned (clean_char True (Some 30) (f_registration_no d))
         (\<lambda>x i. i\<lparr>registration_no := x\<rparr>) instance))))))"

definition construct_assignment :: "store \<Rightarrow> vehicle \<Rightarrow> assign_form_data \<Rightarrow> vehicle" where
  "construct_assignment s instance d =
     (set_cleaned (clean_status (a_status d)) (\<lambda>x i. i\<lparr>status := x\<rparr>)
      (set_cleaned (clean_current_driver s (a_current_driver d)) (\<lambda>x i. i\<lparr>current_driver := x\<rparr>)
         instance))"

text \<open>
  \<open>instance.save()\<close>. The database refuses a row whose registration number is
  that of another row (\<open>unique=True\<close>). An instance without a key is inserted
  under the next key of the sequence; an instance with a key overwrites the row of
  that key, and is inserted under that key when there is no such row.
\<close>

definition next_vehicle_id :: "store \<Rightarrow> nat" where
  "next_vehicle_id s = Suc (fold max (map vehicle_id (vehicles s)) (vehicle_seq s))"

definition insert_vehicle :: "nat \<Rightarrow> vehicle \<Rightarrow> store \<Rightarrow> vehicle \<times> store" where
  "insert_vehicle pk instance s =
     (let v = instance\<lparr>vehicle_id := pk\<rparr>
      in (v, s\<lparr>vehicles := vehicles s @ [v], vehicle_seq := max (vehicle_seq s) pk\<rparr>))"

definition save_vehicle :: "nat option \<Rightarrow> vehicle \<Rightarrow> store \<Rightarrow> exn + vehicle \<times> store" where
  "save_vehicle instance_pk instance s =
     (if list_ex (\<lambda>r. registration_no r = registration_no instance
                        \<and> Some (vehicle_id r) \<noteq> instance_pk) (vehicles s)
      then Inl IntegrityError
      else (case instance_pk of
              None \<Rightarrow> Inr (insert_vehicle (next_vehicle_id s) instance s)
            | Some pk \<Rightarrow>
                if list_ex (\<lambda>r. vehicle_id r = pk) (vehicles s) then
                  (let v = instance\<lparr>vehicle_id := pk\<rparr>
                   in Inr (v, s\<lparr>vehicles := map (\<lambda>r. if vehicle_id r = pk then v else r)
                                              (vehicles s)\<rparr>))
                else Inr (insert_vehicle pk instance s)))"

text \<open>
  \<open>ModelForm.save\<close>: a form with errors cannot be saved; a valid form returns its
  instance, saved when \<open>commit\<close> is set.
\<close>

definition ModelForm_save ::
  "form_errors \<Rightarrow> nat option \<Rightarrow> vehicle \<Rightarrow> bool \<Rightarrow> store \<Rightarrow> exn + vehicle \<times> store" where
  "ModelForm_save errors instance_pk instance commit s =
     (if errors \<noteq> [] then Inl ValueError
      else if commit then save_vehicle instance_pk instance s
      else Inr (instance, s))"

text \<open>
  The geocoding service is outside the program: whether the client library could
  be imported, what a lookup returns (a position, nothing, or an exception) and
  the clock are parameters.
\<close>

record env =
  GEOCODER_AVAILABLE :: bool
  geocode :: "string \<Rightarrow> exn + (int \<times> int) option"
  now :: nat

text \<open>The body of the \<open>try\<close> block of \<open>VehicleForm.save\<close>.\<close>

definition geocode_instance :: "env \<Rightarrow> string \<Rightarrow> vehicle \<Rightarrow> exn + vehicle" where
  "geocode_instance e place instance =
     (case geocode e place of
        Inl ex \<Rightarrow> Inl ex
      | Inr None \<Rightarrow> Inr instance
      | Inr (Some (lat, lng)) \<Rightarrow>
          Inr (instance\<lparr>latitude := Some lat, longitude := Some lng,
                        last_location_time := Some (now e)\<rparr>))"

definition VehicleForm_save ::
  "env \<Rightarrow> nat option \<Rightarrow> vehicle \<Rightarrow> vehicle_form_data \<Rightarrow> bool \<Rightarrow> store
    \<Rightarrow> exn + vehicle \<times> store" where
  "VehicleForm_save e instance_pk instance0 d commit s =
     (case ModelForm_save (VehicleForm_errors s instance_pk d) instance_pk
             (construct_vehicle s instance0 d) False s of
        Inl ex \<Rightarrow> Inl ex
      | Inr (instance, s0) \<Rightarrow>
          (let place = strip (f_place_name d);
               instance =
                 (if place \<noteq> [] \<and> GEOCODER_AVAILABLE e then
                    (case geocode_instance e place instance of
                       Inl ex \<Rightarrow> instance
                     | Inr located \<Rightarrow> located)
                  else instance)
           in if commit then save_vehicle instance_pk instance s0 else Inr (instance, s0)))"

section \<open>Vehicle registry operations and profile deletion (views.py)\<close>

definition add_vehicle_view :: "env \<Rightarrow> vehicle_form_data \<Rightarrow> form_errors view" where
  "add_vehicle_view e d request s =
     (if req_method request = ''POST'' then
        (let errors = VehicleForm_errors s None d
         in if errors = [] then
              (case VehicleForm_save e None new_vehicle d True s of
                 Inl ex \<Rightarrow> (Inl ex, s)
               | Inr (v, s') \<Rightarrow> (Inr (Redirect ''vehicle_list''), s'))
            else (Inr (Render ''vehicles/add.html'' errors), s))
      else (Inr (Render ''vehicles/add.html'' []), s))"

definition add_vehicle :: "env \<Rightarrow> vehicle_form_data \<Rightarrow> form_errors view" where
  "add_vehicle e d = role_required [''admin'', ''staff''] (add_vehicle_view e d)"

definition assign_vehicle_view :: "nat \<Rightarrow> assign_form_data \<Rightarrow> (form_errors \<times> vehicle) view" where
  "assign_vehicle_view pk d request s =
     (case get_vehicle s pk of
        None \<Rightarrow> (Inl Http404, s)
      | Some vehicle \<Rightarrow>
          if req_method request = ''POST'' then
            (let errors = AssignVehicleForm_errors s d;
                 instance = construct_assignment s vehicle d
             in if errors = [] then
                  (case ModelForm_save errors (Some pk) instance True s of
                     Inl ex \<Rightarrow> (Inl ex, s)
                   | Inr (v, s') \<Rightarrow> (Inr (Redirect ''vehicle_list''), s'))
                else (Inr (Render ''vehicles/assign.html'' (errors, instance)), s))
          else (Inr (Render ''vehicles/assign.html'' ([], vehicle)), s))"

definition assign_vehicle :: "nat \<Rightarrow> assign_form_data \<Rightarrow> (form_errors \<times> vehicle) view" where
  "assign_vehicle pk d = role_required [''admin'', ''staff''] (assign_vehicle_view pk d)"

text \<open>
  Deleting a user follows the \<open>on_delete\<close> declarations of models.py: the profile
  goes with its user (\<open>CASCADE\<close>); a vehicle's \<open>current_driver\<close> and a log's
  \<open>created_by\<close> that name the user are set to null (\<open>SET_NULL\<close>).
\<close>

definition delete_user :: "nat \<Rightarrow> store \<Rightarrow> store" where
  "delete_user uid s =
     s\<lparr>users := filter (\<lambda>u. user_id u \<noteq> uid) (users s),
       profiles := filter (\<lambda>p. profile_user p \<noteq> uid) (profiles s),
       vehicles :=
         map (\<lambda>v. if current_driver v = Some uid then v\<lparr>current_driver := None\<rparr> else v)
           (vehicles s),
       maintenance_logs :=
         map (\<lambda>m. if mlog_created_by m = Some uid then m\<lparr>mlog_created_by := None\<rparr> else m)
           (maintenance_logs s),
       fuel_logs :=
         map (\<lambda>f. if flog_created_by f = Some uid then f\<lparr>flog_created_by := None\<rparr> else f)
           (fuel_logs s)\<rparr>"

definition delete_profile_row :: "nat \<Rightarrow> store \<Rightarrow> store" where
  "delete_profile_row pk s = s\<lparr>profiles := filter (\<lambda>p. profile_id p \<noteq> pk) (profiles s)\<rparr>"

definition delete_profile_view :: "nat \<Rightarrow> unit view" where
  "delete_profile_view pk request s =
     (case find (\<lambda>p. profile_id p = pk) (profiles s) of
        None \<Rightarrow> (Inl Http404, s)
      | Some profile \<Rightarrow>
          (case get_user s (profile_user profile) of
             None \<Rightarrow> (Inl DoesNotExist, s)
           | Some u \<Rightarrow>
               (Inr (Redirect ''admin_dashboard''),
                delete_profile_row pk (delete_user (user_id u) s))))"

definition delete_profile :: "nat \<Rightarrow> unit view" where
  "delete_profile pk = role_required [''admin''] (delete_profile_view pk)"

section \<open>The specification's side\<close>

text \<open>
  The contract of the authorization gate in the specification's words: the identity is a
  superuser, or its profile's role is "admin" up to case, or its profile's role is,
  up to case, one of the required roles.
\<close>

definition same_role :: "string \<Rightarrow> string \<Rightarrow> bool" where
  "same_role a b = (lower a = lower b)"

definition gate_permits :: "store \<Rightarrow> user \<Rightarrow> string list \<Rightarrow> bool" where
  "gate_permits s u required =
     (is_superuser u \<or>
      (case get_profile s (user_id u) of
         None \<Rightarrow> False
       | Some p \<Rightarrow> same_role (role p) ''admin'' \<or> list_ex (same_role (role p)) required))"

text \<open>
  An identity "whose profile role is driver": some profile of that user carries
  the role, up to case.
\<close>

definition has_driver_role :: "store \<Rightarrow> nat \<Rightarrow> bool" where
  "has_driver_role s uid =
     (list_ex (\<lambda>u. user_id u = uid) (users s) \<and>
      list_ex (\<lambda>p. profile_user p = uid \<and> same_role (role p) ''driver'') (profiles s))"

text \<open>
  The feed in the specification's words: the vehicles that have both a latitude
  and a longitude, one entry each, and the entry of a vehicle is its id,
  registration, make, model, status, its driver's username or null, its latitude,
  its longitude and its last-updated timestamp or null. Referential integrity of the driver column:
  every driver a vehicle names is a row of the user table.
\<close>

definition located :: "vehicle \<Rightarrow> bool" where
  "located v = (latitude v \<noteq> None \<and> longitude v \<noteq> None)"

definition driver_row :: "store \<Rightarrow> vehicle \<Rightarrow> user option" where
  "driver_row s v = (case current_driver v of None \<Rightarrow> None | Some uid \<Rightarrow> get_user s uid)"

definition feed_entry :: "store \<Rightarrow> vehicle \<Rightarrow> track_entry" where
  "feed_entry s v =
     \<lparr>e_id = vehicle_id v,
      e_reg = registration_no v,
      e_make = veh_make v,
      e_model = model v,
      e_status = status v,
      e_driver = (case driver_row s v of None \<Rightarrow> None | Some u \<Rightarrow> Some (username u)),
      e_lat = the (latitude v),
      e_lng = the (longitude v),
      e_updated = last_location_time v\<rparr>"

definition drivers_exist :: "store \<Rightarrow> bool" where
  "drivers_exist s =
     list_all (\<lambda>v. case current_driver v of None \<Rightarrow> True | Some uid \<Rightarrow> get_user s uid \<noteq> None)
       (vehicles s)"

text \<open>
  The list in the specification's words: a vehicle is selected by a query text
  when its registration number, make or model contains the text up to case, and
  by a status filter when the filter is empty or is the vehicle's status.
\<close>

definition matches_query :: "string \<Rightarrow> vehicle \<Rightarrow> bool" where
  "matches_query q v =
     (icontains (registration_no v) q \<or> icontains (veh_make v) q \<or> icontains (model v) q)"

definition matches_status :: "string \<Rightarrow> vehicle \<Rightarrow> bool" where
  "matches_status st v = (st = [] \<or> status v = st)"

text \<open>The query text and the status filter of a request, as the view reads them.\<close>

definition query_text :: "request \<Rightarrow> string" where
  "query_text request = strip (dict_get (req_GET request) ''q'' [])"

definition status_filter :: "request \<Rightarrow> string" where
  "status_filter request = strip (dict_get (req_GET request) ''status'' [])"

definition selected :: "string \<Rightarrow> string \<Rightarrow> store \<Rightarrow> vehicle list" where
  "selected q st s = filter (\<lambda>v. matches_query q v \<and> matches_status st v) (vehicles s)"

text \<open>The columns of a vehicle that an assignment does not write.\<close>

definition unassigned_part ::
  "vehicle \<Rightarrow> nat \<times> string \<times> string \<times> string \<times> int option \<times> int option \<times> int option \<times> nat option" where
  "unassigned_part v =
     (vehicle_id v, registration_no v, veh_make v, model v, year v, latitude v, longitude v,
      last_location_time v)"

section \<open>A small fleet\<close>

text \<open>
  A store to run the operations on: an administrator, a staff member, two drivers,
  a user without a profile and a superuser without a profile; three vehicles, of
  which one has a position, one has a latitude only and one has none.
\<close>

definition alice :: user where
  "alice = \<lparr>user_id = 1, username = ''alice'', is_superuser = False\<rparr>"

definition sam :: user where
  "sam = \<lparr>user_id = 2, username = ''sam'', is_superuser = False\<rparr>"

definition john :: user where
  "john = \<lparr>user_id = 3, username = ''john'', is_superuser = False\<rparr>"

definition dave :: user where
  "dave = \<lparr>user_id = 4, username = ''dave'', is_superuser = False\<rparr>"

definition nora :: user where
  "nora = \<lparr>user_id = 5, username = ''nora'', is_superuser = False\<rparr>"

definition root :: user where
  "root = \<lparr>user_id = 6, username = ''root'', is_superuser = True\<rparr>"

definition van :: vehicle where
  "van =
     \<lparr>vehicle_id = 1, registration_no = ''KA01AB1234'', veh_make = ''Tata'', model = ''Ace'',
      year = Some 2019, status = ''active'', current_driver = Some 3,
      latitude = Some 12971599, longitude = Some 77594566, last_location_time = Some 100\<rparr>"

definition truck :: vehicle where
  "truck =
     \<lparr>vehicle_id = 2, registration_no = ''KA02XY0001'', veh_make = ''Ford'', model = ''Transit'',
      year = None, status = ''maintenance'', current_driver = None,
      latitude = Some 13000000, longitude = None, last_location_time = None\<rparr>"

definition bus :: vehicle where
  "bus =
     \<lparr>vehicle_id = 3, registration_no = ''AP09CD0042'', veh_make = ''Volvo'', model = ''B9R'',
      year = Some 2021, status = ''active'', current_driver = Some 4,
      latitude = None, longitude = None, last_location_time = None\<rparr>"

definition fleet :: store where
  "fleet =
     \<lparr>users = [alice, sam, john, dave, nora, root],
      profiles =
        [\<lparr>profile_id = 1, profile_user = 1, role = ''Admin''\<rparr>,
         \<lparr>profile_id = 2, profile_user = 2, role = ''staff''\<rparr>,
         \<lparr>profile_id = 3, profile_user = 3, role = ''driver''\<rparr>,
         \<lparr>profile_id = 4, profile_user = 4, role = ''driver''\<rparr>],
      vehicles = [van, truck, bus],
      vehicle_seq = 3,
      maintenance_logs =
        [\<lparr>mlog_id = 1, mlog_vehicle = 1, description = ''oil'', mlog_date = 90,
          next_due = None, mlog_created_by = Some 3\<rparr>],
      fuel_logs =
        [\<lparr>flog_id = 1, flog_vehicle = 1, flog_date = 95, liters = 4000, cost = 410000,
          odometer = Some 52000, flog_created_by = Some 3\<rparr>]\<rparr>"

text \<open>The same fleet with a fourth vehicle that has a position but no driver.\<close>

definition jeep :: vehicle where
  "jeep =
     \<lparr>vehicle_id = 4, registration_no = ''TN10ZZ0007'', veh_make = ''Mahindra'', model = ''Thar'',
      year = None, status = ''inactive'', current_driver = None,
      latitude = Some 13082700, longitude = Some 80270700, last_location_time = None\<rparr>"

definition yard :: store where
  "yard = fleet\<lparr>vehicles := [van, truck, bus, jeep], vehicle_seq := 4\<rparr>"

definition request_by :: "user option \<Rightarrow> request" where
  "request_by usr =
     \<lparr>req_method = ''GET'', req_user = usr, req_GET = Map.empty, req_POST = Map.empty\<rparr>"

definition post_by :: "user option \<Rightarrow> request" where
  "post_by usr =
     \<lparr>req_method = ''POST'', req_user = usr, req_GET = Map.empty, req_POST = Map.empty\<rparr>"

text \<open>A credential store that knows one password, and a login request with it.\<close>

definition credentials :: "string \<Rightarrow> string \<Rightarrow> user option" where
  "credentials name password =
     (if name = ''nora'' \<and> password = ''secret'' then Some nora else None)"

definition nora_login :: request where
  "nora_login =
     \<lparr>req_method = ''POST'', req_user = None, req_GET = Map.empty,
      req_POST = [''username'' \<mapsto> '' nora '', ''password'' \<mapsto> ''secret'']\<rparr>"

text \<open>
  A geocoder that knows one place, finds nothing for another and fails on every
  other name; an environment where the client library is present and one where it
  is not; and the form data of a new car.
\<close>

definition demo_geocode :: "string \<Rightarrow> exn + (int \<times> int) option" where
  "demo_geocode place =
     (if place = ''Bengaluru'' then Inr (Some (12971599, 77594566))
      else if place = ''Nowhere'' then Inr None
      else Inl GeocoderError)"

definition online :: env where
  "online = \<lparr>GEOCODER_AVAILABLE = True, geocode = demo_geocode, now = 200\<rparr>"

definition offline :: env where
  "offline = \<lparr>GEOCODER_AVAILABLE = False, geocode = demo_geocode, now = 200\<rparr>"

definition new_car :: "string \<Rightarrow> string \<Rightarrow> vehicle_form_data" where
  "new_car reg place =
     \<lparr>f_registration_no = reg, f_make = ''Maruti'', f_model = ''Swift'', f_year = Some 2022,
      f_status = ''active'', f_current_driver = Some 3, f_place_name = place\<rparr>"

text \<open>An assignment form that gives a vehicle to john and sends it to maintenance.\<close>

definition reassign :: assign_form_data where
  "reassign = \<lparr>a_current_driver = Some 3, a_status = ''maintenance''\<rparr>"

text \<open>A list request whose query text and status filter are padded with blanks.\<close>

definition padded_query :: request where
  "padded_query =
     \<lparr>req_method = ''GET'', req_user = Some sam,
      req_GET = [''q'' \<mapsto> '' ka0 '', ''status'' \<mapsto> ''active ''], req_POST = Map.empty\<rparr>"

section \<open>Properties\<close>

lemma lower_admin: "lower ''admin'' = ''admin''"
  by (simp add: lower_def lower_char_def)

lemma role_required_gate:
  "req_user request = Some u \<Longrightarrow>
   role_required required view_func request s =
     (if gate_permits s u required then view_func request s else (Inl PermissionDenied, s))"
  by (auto simp: role_required_def login_required_def role_wrapped_def is_app_admin_def
      get_user_role_def gate_permits_def same_role_def lower_admin list_ex_iff
      split: option.splits)

lemma role_required_anonymous:
  "req_user request = None \<Longrightarrow>
   role_required required view_func request s = (Inr (Redirect ''login''), s)"
  by (simp add: role_required_def login_required_def)

lemmas fleet_defs =
  fleet_def alice_def sam_def john_def dave_def nora_def root_def van_def truck_def bus_def
  request_by_def post_by_def

lemma lower_staff: "lower ''staff'' = ''staff''"
  by (simp add: lower_def lower_char_def)

lemma lower_driver: "lower ''driver'' = ''driver''"
  by (simp add: lower_def lower_char_def)

subsection \<open>The authorization gate\<close>

text \<open>
  C1. For a request by an authenticated identity, \<open>role_required\<close> lets the
  operation run exactly when the identity is a superuser, or its profile's role
  is "admin" up to case, or its profile's role is one of the required roles up
  to case; in every other case the outcome is \<open>PermissionDenied\<close> and the store is untouched. In
  particular an identity that is no superuser and has no profile is denied whatever
  the required roles are.
\<close>

theorem role_required_contract:
  assumes "req_user request = Some u"
  shows "role_required required view_func request s =
           (if gate_permits s u required then view_func request s else (Inl PermissionDenied, s))
         \<and> (\<not> is_superuser u \<and> get_profile s (user_id u) = None \<longrightarrow>
              role_required required view_func request s = (Inl PermissionDenied, s))"
proof -
  have gate: "role_required required view_func request s =
      (if gate_permits s u required then view_func request s else (Inl PermissionDenied, s))"
    using assms by (rule role_required_gate)
  moreover have "\<not> gate_permits s u required"
    if "\<not> is_superuser u" "get_profile s (user_id u) = None"
    using that by (simp add: gate_permits_def)
  ultimately show ?thesis by simp
qed

theorem role_required_contract_witness:
  "role_required [''staff''] admin_dashboard_view (request_by (Some alice)) fleet =
     admin_dashboard_view (request_by (Some alice)) fleet
   \<and> role_required [''Staff''] admin_dashboard_view (request_by (Some sam)) fleet =
     admin_dashboard_view (request_by (Some sam)) fleet
   \<and> role_required [''staff''] admin_dashboard_view (request_by (Some john)) fleet =
     (Inl PermissionDenied, fleet)
   \<and> role_required [''staff''] admin_dashboard_view (request_by (Some nora)) fleet =
     (Inl PermissionDenied, fleet)
   \<and> role_required [] admin_dashboard_view (request_by (Some root)) fleet =
     admin_dashboard_view (request_by (Some root)) fleet"
proof -
  have a: "gate_permits fleet alice [''staff'']"
    by (simp add: gate_permits_def get_profile_def fleet_defs same_role_def lower_def lower_char_def)
  have b: "gate_permits fleet sam [''Staff'']"
    by (simp add: gate_permits_def get_profile_def fleet_defs same_role_def lower_def lower_char_def)
  have c: "\<not> gate_permits fleet john [''staff'']"
    by (simp add: gate_permits_def get_profile_def fleet_defs same_role_def lower_def lower_char_def)
  have d: "\<not> is_superuser nora \<and> get_profile fleet (user_id nora) = None"
    by (simp add: get_profile_def fleet_defs)
  have d': "\<not> gate_permits fleet nora [''staff'']"
    by (simp add: gate_permits_def get_profile_def fleet_defs)
  have e: "gate_permits fleet root []"
    by (simp add: gate_permits_def root_def)
  have r: "req_user (request_by (Some x)) = Some x" for x
    by (simp add: request_by_def)
  show ?thesis
    using role_required_contract [OF r, of "[''staff'']" admin_dashboard_view alice fleet]
      role_required_contract [OF r, of "[''Staff'']" admin_dashboard_view sam fleet]
      role_required_contract [OF r, of "[''staff'']" admin_dashboard_view john fleet]
      role_required_contract [OF r, of "[''staff'']" admin_dashboard_view nora fleet]
      role_required_contract [OF r, of "[]" admin_dashboard_view root fleet]
      a b c d d' e
    by simp
qed

lemma gate_permits_profile:
  "get_profile s (user_id u) = Some p \<Longrightarrow>
   gate_permits s u required =
     (is_superuser u \<or> same_role (role p) ''admin'' \<or> list_ex (same_role (role p)) required)"
  by (simp add: gate_permits_def)

lemma gate_permits_no_profile:
  "get_profile s (user_id u) = None \<Longrightarrow> gate_permits s u required = is_superuser u"
  by (simp add: gate_permits_def)

subsection \<open>The dashboard and identities without a profile\<close>

text \<open>
  C9, as stated, fails: nora is authenticated, is no superuser, is no administrator
  and has no profile; her request to the admin dashboard ends in
  \<open>PermissionDenied\<close>, not in a redirect to the login page.
\<close>

theorem admin_dashboard_without_profile_counterexample:
  "\<not> is_superuser nora \<and> get_profile fleet (user_id nora) = None
   \<and> \<not> is_app_admin fleet (Some nora)
   \<and> admin_dashboard (request_by (Some nora)) fleet = (Inl PermissionDenied, fleet)
   \<and> admin_dashboard (request_by (Some nora)) fleet \<noteq> (Inr (Redirect ''login''), fleet)"
proof -
  have np: "get_profile fleet (user_id nora) = None"
    by (simp add: get_profile_def fleet_defs)
  have ns: "\<not> is_superuser nora"
    by (simp add: nora_def)
  have "admin_dashboard (request_by (Some nora)) fleet = (Inl PermissionDenied, fleet)"
    unfolding admin_dashboard_def
    by (subst role_required_gate [where u = nora])
       (simp_all add: request_by_def gate_permits_no_profile [OF np] ns)
  with np ns show ?thesis
    by (simp add: is_app_admin_def)
qed

text \<open>
  C9, amended. A request to the admin dashboard that carries no authenticated
  identity is redirected to the login page; a request by an authenticated identity
  that is no superuser and has no profile is answered with \<open>PermissionDenied\<close>.
  Neither touches the store.
\<close>

theorem admin_dashboard_without_profile:
  "(req_user request = None \<longrightarrow> admin_dashboard request s = (Inr (Redirect ''login''), s))
   \<and> (\<forall>u. req_user request = Some u \<and> \<not> is_superuser u \<and> get_profile s (user_id u) = None \<longrightarrow>
          admin_dashboard request s = (Inl PermissionDenied, s))"
proof (intro conjI allI impI)
  assume "req_user request = None"
  then show "admin_dashboard request s = (Inr (Redirect ''login''), s)"
    unfolding admin_dashboard_def by (rule role_required_anonymous)
next
  fix u
  assume h: "req_user request = Some u \<and> \<not> is_superuser u \<and> get_profile s (user_id u) = None"
  then have "\<not> gate_permits s u [''admin'']"
    by (simp add: gate_permits_no_profile)
  with h show "admin_dashboard request s = (Inl PermissionDenied, s)"
    unfolding admin_dashboard_def by (simp add: role_required_gate)
qed

theorem admin_dashboard_without_profile_witness:
  "admin_dashboard (request_by None) fleet = (Inr (Redirect ''login''), fleet)
   \<and> admin_dashboard (request_by (Some nora)) fleet = (Inl PermissionDenied, fleet)"
proof -
  have "req_user (request_by (Some nora)) = Some nora \<and> \<not> is_superuser nora
        \<and> get_profile fleet (user_id nora) = None"
    by (simp add: get_profile_def fleet_defs)
  moreover have "req_user (request_by None) = None"
    by (simp add: request_by_def)
  ultimately show ?thesis
    using admin_dashboard_without_profile [of "request_by None" fleet]
      admin_dashboard_without_profile [of "request_by (Some nora)" fleet]
    by blast
qed

subsection \<open>Vehicle detail\<close>

text \<open>
  C2. For an identity whose profile role is "driver" (up to case) and that is no
  superuser, \<open>vehicle_detail\<close> on an existing vehicle succeeds when the vehicle's
  current driver is that identity and is \<open>PermissionDenied\<close> otherwise. For an
  identity whose profile role is "admin" or "staff" it succeeds whoever the
  current driver is.
\<close>

theorem vehicle_detail_ownership:
  assumes usr: "req_user request = Some u"
    and prof: "get_profile s (user_id u) = Some p"
    and veh: "get_vehicle s pk = Some v"
  shows "(same_role (role p) ''driver'' \<and> \<not> is_superuser u \<longrightarrow>
            vehicle_detail pk request s =
              (if current_driver v = Some (user_id u)
               then (Inr (Render ''vehicles/detail.html'' (detail_of s v)), s)
               else (Inl PermissionDenied, s)))
       \<and> (same_role (role p) ''admin'' \<or> same_role (role p) ''staff'' \<longrightarrow>
            vehicle_detail pk request s = (Inr (Render ''vehicles/detail.html'' (detail_of s v)), s))"
proof (intro conjI impI)
  assume "same_role (role p) ''driver'' \<and> \<not> is_superuser u"
  then have r: "lower (role p) = ''driver''" and ns: "\<not> is_superuser u"
    by (simp_all add: same_role_def lower_driver)
  have permitted: "gate_permits s u [''admin'', ''staff'', ''driver'']"
    using r by (simp add: gate_permits_profile [OF prof] same_role_def lower_driver)
  have "\<not> is_app_admin s (Some u)"
    using r ns prof by (simp add: is_app_admin_def)
  moreover have "get_user_role s (Some u) = Some ''driver''"
    using r prof by (simp add: get_user_role_def)
  ultimately have "vehicle_detail_view pk request s =
      (if current_driver v = Some (user_id u)
       then (Inr (Render ''vehicles/detail.html'' (detail_of s v)), s)
       else (Inl PermissionDenied, s))"
    using usr veh by (simp add: vehicle_detail_view_def)
  with permitted show "vehicle_detail pk request s =
      (if current_driver v = Some (user_id u)
       then (Inr (Render ''vehicles/detail.html'' (detail_of s v)), s)
       else (Inl PermissionDenied, s))"
    unfolding vehicle_detail_def by (simp add: role_required_gate [OF usr])
next
  assume "same_role (role p) ''admin'' \<or> same_role (role p) ''staff''"
  then have r: "lower (role p) = ''admin'' \<or> lower (role p) = ''staff''"
    by (simp add: same_role_def lower_admin lower_staff)
  then have permitted: "gate_permits s u [''admin'', ''staff'', ''driver'']"
    by (auto simp: gate_permits_profile [OF prof] same_role_def lower_admin lower_staff)
  have "get_user_role s (Some u) \<noteq> Some ''driver''"
    using r prof by (auto simp: get_user_role_def)
  then have "vehicle_detail_view pk request s =
      (Inr (Render ''vehicles/detail.html'' (detail_of s v)), s)"
    using usr veh by (simp add: vehicle_detail_view_def)
  with permitted show "vehicle_detail pk request s =
      (Inr (Render ''vehicles/detail.html'' (detail_of s v)), s)"
    unfolding vehicle_detail_def by (simp add: role_required_gate [OF usr])
qed

theorem vehicle_detail_ownership_witness:
  "vehicle_detail 1 (request_by (Some john)) fleet =
     (Inr (Render ''vehicles/detail.html'' (detail_of fleet van)), fleet)
   \<and> vehicle_detail 3 (request_by (Some john)) fleet = (Inl PermissionDenied, fleet)
   \<and> vehicle_detail 3 (request_by (Some sam)) fleet =
     (Inr (Render ''vehicles/detail.html'' (detail_of fleet bus)), fleet)"
proof -
  have r: "req_user (request_by (Some x)) = Some x" for x
    by (simp add: request_by_def)
  have pj: "get_profile fleet (user_id john) = Some \<lparr>profile_id = 3, profile_user = 3, role = ''driver''\<rparr>"
    by (simp add: get_profile_def fleet_defs)
  have ps: "get_profile fleet (user_id sam) = Some \<lparr>profile_id = 2, profile_user = 2, role = ''staff''\<rparr>"
    by (simp add: get_profile_def fleet_defs)
  have v1: "get_vehicle fleet 1 = Some van" and v3: "get_vehicle fleet 3 = Some bus"
    by (simp_all add: get_vehicle_def fleet_defs)
  have facts: "\<not> is_superuser john" "current_driver van = Some (user_id john)"
    "current_driver bus \<noteq> Some (user_id john)"
    by (simp_all add: fleet_defs)
  show ?thesis
    using vehicle_detail_ownership [OF r pj v1] vehicle_detail_ownership [OF r pj v3]
      vehicle_detail_ownership [OF r ps v3] facts
    by (simp add: same_role_def)
qed

subsection \<open>Login\<close>

text \<open>
  C10. When the posted credentials authenticate an identity that is no superuser
  and whose profile, if it has one, carries none of the roles admin, staff and
  driver (up to case), \<open>login_view\<close> answers with the login page and its error
  message, and the session it leaves has no logged-in user, whatever the session
  was before.
\<close>

theorem login_view_without_role:
  assumes "req_method request = ''POST''"
    and "authenticate (strip (dict_get (req_POST request) ''username'' []))
           (dict_get (req_POST request) ''password'' []) = Some u"
    and "\<not> is_superuser u"
    and "case get_profile s (user_id u) of
           None \<Rightarrow> True
         | Some p \<Rightarrow> \<not> list_ex (same_role (role p)) [''admin'', ''staff'', ''driver'']"
  shows "login_view authenticate request s session =
           (Render ''login.html'' (Some ''Role not assigned to this user.''), None)"
proof (cases "get_profile s (user_id u)")
  case None
  then have "get_user_role s (Some u) = None"
    by (simp add: get_user_role_def)
  with assms(1-3) show ?thesis
    by (simp add: login_view_def Let_def)
next
  case (Some p)
  with assms(4) have "lower (role p) \<noteq> ''admin''" "lower (role p) \<noteq> ''staff''"
    "lower (role p) \<noteq> ''driver''"
    by (simp_all add: same_role_def lower_admin lower_staff lower_driver)
  moreover have "get_user_role s (Some u) = Some (lower (role p))"
    using Some by (simp add: get_user_role_def)
  ultimately show ?thesis
    using assms(1-3) by (simp add: login_view_def Let_def)
qed

theorem login_view_without_role_witness:
  "login_view credentials nora_login fleet (Some 2) =
     (Render ''login.html'' (Some ''Role not assigned to this user.''), None)"
proof -
  have "strip (dict_get (req_POST nora_login) ''username'' []) = ''nora''"
    by (simp add: nora_login_def dict_get_def strip_def is_space_def)
  moreover have "dict_get (req_POST nora_login) ''password'' [] = ''secret''"
    by (simp add: nora_login_def dict_get_def)
  ultimately have auth: "credentials (strip (dict_get (req_POST nora_login) ''username'' []))
      (dict_get (req_POST nora_login) ''password'' []) = Some nora"
    by (simp add: credentials_def)
  have "get_profile fleet (user_id nora) = None"
    by (simp add: get_profile_def fleet_defs)
  then show ?thesis
    using auth
      login_view_without_role [of nora_login credentials nora fleet "Some 2"]
    by (simp add: nora_login_def nora_def)
qed

subsection \<open>The location feed\<close>

text \<open>
  The loop of the feed, started with any entries already collected, adds one
  entry for each vehicle that has both coordinates, in table order, and nothing
  for the others.
\<close>

lemma track_loop_feed:
  "list_all (\<lambda>v. case current_driver v of None \<Rightarrow> True | Some uid \<Rightarrow> get_user s uid \<noteq> None) vs \<Longrightarrow>
   track_loop s vs data = Inr (data @ map (feed_entry s) (filter located vs))"
proof (induction vs arbitrary: data)
  case Nil
  show ?case by simp
next
  case (Cons v vs)
  then have rest: "track_loop s vs acc = Inr (acc @ map (feed_entry s) (filter located vs))" for acc
    by simp
  show ?case
  proof (cases "located v")
    case False
    then have "latitude v = None \<or> longitude v = None"
      by (simp add: located_def)
    with False show ?thesis
      by (auto simp: rest split: option.splits)
  next
    case True
    then obtain lat lng where ll: "latitude v = Some lat" "longitude v = Some lng"
      by (auto simp: located_def)
    from Cons.prems have "driver_of s v = Inr (driver_row s v)"
      by (auto simp: driver_of_def driver_row_def split: option.splits)
    with True ll show ?thesis
      by (simp add: rest feed_entry_def entry_of_def map_option_case)
  qed
qed

text \<open>
  C3. For a permitted request on a store whose driver references all resolve, the
  feed is a JSON response with exactly one entry for every vehicle that has both
  latitude and longitude set, in table order, and no entry for any vehicle that
  lacks one of the two. The entry of a vehicle carries that vehicle's id,
  registration number, make, model and status, the username of its driver or
  null, its latitude, its longitude, and its location time or null; the
  specification's \<open>feed_entry\<close> is written out field by field, apart from the
  record the loop builds.
\<close>

theorem vehicle_track_data_feed:
  assumes "req_user request = Some u"
    and "gate_permits s u [''admin'', ''staff'']"
    and "drivers_exist s"
  shows "vehicle_track_data request s =
           (Inr (JsonResponse (map (feed_entry s) (filter located (vehicles s)))), s)"
proof -
  have "track_loop s (vehicles s) [] = Inr (map (feed_entry s) (filter located (vehicles s)))"
    using assms(3) track_loop_feed [of s "vehicles s" "[]"] by (simp add: drivers_exist_def)
  then have "vehicle_track_data_view request s =
      (Inr (JsonResponse (map (feed_entry s) (filter located (vehicles s)))), s)"
    by (simp add: vehicle_track_data_view_def)
  with assms(1,2) show ?thesis
    unfolding vehicle_track_data_def by (simp add: role_required_gate)
qed

lemma sam_is_staff: "gate_permits fleet sam [''admin'', ''staff'']"
  by (simp add: gate_permits_def get_profile_def fleet_defs same_role_def lower_def lower_char_def)

lemma alice_is_admin: "gate_permits fleet alice required"
  by (simp add: gate_permits_def get_profile_def fleet_defs same_role_def lower_def lower_char_def)

theorem vehicle_track_data_feed_witness:
  "vehicle_track_data (request_by (Some sam)) yard =
     (Inr (JsonResponse
        [\<lparr>e_id = 1, e_reg = ''KA01AB1234'', e_make = ''Tata'', e_model = ''Ace'',
          e_status = ''active'', e_driver = Some ''john'', e_lat = 12971599,
          e_lng = 77594566, e_updated = Some 100\<rparr>,
         \<lparr>e_id = 4, e_reg = ''TN10ZZ0007'', e_make = ''Mahindra'', e_model = ''Thar'',
          e_status = ''inactive'', e_driver = None, e_lat = 13082700,
          e_lng = 80270700, e_updated = None\<rparr>]), yard)"
proof -
  have integrity: "drivers_exist yard"
    by (simp add: drivers_exist_def get_user_def yard_def jeep_def fleet_defs)
  have usr: "req_user (request_by (Some sam)) = Some sam"
    by (simp add: request_by_def)
  have staff: "gate_permits yard sam [''admin'', ''staff'']"
    by (simp add: gate_permits_def get_profile_def yard_def fleet_defs same_role_def lower_def
        lower_char_def)
  have "filter located (vehicles yard) = [van, jeep]"
    by (simp add: located_def yard_def van_def truck_def bus_def jeep_def)
  moreover have "feed_entry yard van =
      \<lparr>e_id = 1, e_reg = ''KA01AB1234'', e_make = ''Tata'', e_model = ''Ace'',
        e_status = ''active'', e_driver = Some ''john'', e_lat = 12971599,
        e_lng = 77594566, e_updated = Some 100\<rparr>"
    by (simp add: feed_entry_def driver_row_def get_user_def yard_def fleet_defs)
  moreover have "feed_entry yard jeep =
      \<lparr>e_id = 4, e_reg = ''TN10ZZ0007'', e_make = ''Mahindra'', e_model = ''Thar'',
        e_status = ''inactive'', e_driver = None, e_lat = 13082700,
        e_lng = 80270700, e_updated = None\<rparr>"
    by (simp add: feed_entry_def driver_row_def jeep_def)
  ultimately show ?thesis
    using vehicle_track_data_feed [OF usr staff integrity] by simp
qed

subsection \<open>Deleting a profile\<close>

text \<open>
  C5. When an administrator deletes the profile P with key pk, whose linked
  identity is u, the operation redirects to the dashboard and leaves a store in
  which P and u are gone (no profile has P's key, no profile belongs to u, no user
  has u's key), every vehicle whose current driver was u has a null driver and is
  otherwise as before, and every maintenance or fuel log that u created has a
  null creator and is otherwise as before; no vehicle or log is removed.
\<close>

theorem delete_profile_cascade:
  assumes adm: "req_user request = Some a" "gate_permits s a [''admin'']"
    and prof: "find (\<lambda>p. profile_id p = pk) (profiles s) = Some P"
    and link: "get_user s (profile_user P) = Some u"
    and run: "delete_profile pk request s = (out, s')"
  shows "out = Inr (Redirect ''admin_dashboard'')
       \<and> P \<notin> set (profiles s') \<and> find (\<lambda>p. profile_id p = pk) (profiles s') = None
       \<and> u \<notin> set (users s') \<and> get_user s' (user_id u) = None
       \<and> get_profile s' (user_id u) = None
       \<and> vehicles s' =
           map (\<lambda>v. if current_driver v = Some (user_id u) then v\<lparr>current_driver := None\<rparr> else v)
             (vehicles s)
       \<and> (\<forall>v \<in> set (vehicles s'). current_driver v \<noteq> Some (user_id u))
       \<and> maintenance_logs s' =
           map (\<lambda>m. if mlog_created_by m = Some (user_id u) then m\<lparr>mlog_created_by := None\<rparr> else m)
             (maintenance_logs s)
       \<and> (\<forall>m \<in> set (maintenance_logs s'). mlog_created_by m \<noteq> Some (user_id u))
       \<and> fuel_logs s' =
           map (\<lambda>f. if flog_created_by f = Some (user_id u) then f\<lparr>flog_created_by := None\<rparr> else f)
             (fuel_logs s)
       \<and> (\<forall>f \<in> set (fuel_logs s'). flog_created_by f \<noteq> Some (user_id u))"
proof -
  have "delete_profile pk request s = delete_profile_view pk request s"
    unfolding delete_profile_def using adm by (simp add: role_required_gate)
  with run prof link have out: "out = Inr (Redirect ''admin_dashboard'')"
    and s': "s' = delete_profile_row pk (delete_user (user_id u) s)"
    by (simp_all add: delete_profile_view_def)
  have pid: "profile_id P = pk"
    using prof by (auto simp: find_Some_iff)
  have users: "users s' = filter (\<lambda>x. user_id x \<noteq> user_id u) (users s)"
    and profiles: "profiles s' =
      filter (\<lambda>p. profile_id p \<noteq> pk) (filter (\<lambda>p. profile_user p \<noteq> user_id u) (profiles s))"
    and vehicles: "vehicles s' =
      map (\<lambda>v. if current_driver v = Some (user_id u) then v\<lparr>current_driver := None\<rparr> else v)
        (vehicles s)"
    and mlogs: "maintenance_logs s' =
      map (\<lambda>m. if mlog_created_by m = Some (user_id u) then m\<lparr>mlog_created_by := None\<rparr> else m)
        (maintenance_logs s)"
    and flogs: "fuel_logs s' =
      map (\<lambda>f. if flog_created_by f = Some (user_id u) then f\<lparr>flog_created_by := None\<rparr> else f)
        (fuel_logs s)"
    by (simp_all add: s' delete_profile_row_def delete_user_def)
  have p1: "P \<notin> set (profiles s')"
    using pid by (simp add: profiles)
  have p2: "find (\<lambda>p. profile_id p = pk) (profiles s') = None"
    by (simp add: profiles find_None_iff)
  have u1: "u \<notin> set (users s')"
    by (simp add: users)
  have u2: "get_user s' (user_id u) = None"
    by (simp add: users get_user_def find_None_iff)
  have p3: "get_profile s' (user_id u) = None"
    by (auto simp: profiles get_profile_def find_None_iff)
  have v1: "\<forall>v \<in> set (vehicles s'). current_driver v \<noteq> Some (user_id u)"
    unfolding vehicles by auto
  have m1: "\<forall>m \<in> set (maintenance_logs s'). mlog_created_by m \<noteq> Some (user_id u)"
    unfolding mlogs by auto
  have f1: "\<forall>f \<in> set (fuel_logs s'). flog_created_by f \<noteq> Some (user_id u)"
    unfolding flogs by auto
  from out p1 p2 u1 u2 p3 vehicles v1 mlogs m1 flogs f1 show ?thesis
    by (intro conjI)
qed

theorem delete_profile_cascade_witness:
  "fst (delete_profile 3 (request_by (Some alice)) fleet) = Inr (Redirect ''admin_dashboard'')
   \<and> get_user (snd (delete_profile 3 (request_by (Some alice)) fleet)) 3 = None
   \<and> get_profile (snd (delete_profile 3 (request_by (Some alice)) fleet)) 3 = None
   \<and> vehicles (snd (delete_profile 3 (request_by (Some alice)) fleet)) =
       [van\<lparr>current_driver := None\<rparr>, truck, bus]"
proof -
  have r: "req_user (request_by (Some alice)) = Some alice"
    by (simp add: request_by_def)
  have p: "find (\<lambda>p. profile_id p = 3) (profiles fleet) =
      Some \<lparr>profile_id = 3, profile_user = 3, role = ''driver''\<rparr>"
    by (simp add: fleet_defs)
  have l: "get_user fleet (profile_user \<lparr>profile_id = 3, profile_user = 3, role = ''driver''\<rparr>) =
      Some john"
    by (simp add: get_user_def fleet_defs)
  have run: "delete_profile 3 (request_by (Some alice)) fleet =
      (fst (delete_profile 3 (request_by (Some alice)) fleet),
       snd (delete_profile 3 (request_by (Some alice)) fleet))"
    by (rule prod.collapse [symmetric])
  have j: "user_id john = 3"
    by (simp add: john_def)
  have vs: "map (\<lambda>v. if current_driver v = Some 3 then v\<lparr>current_driver := None\<rparr> else v)
      (vehicles fleet) = [van\<lparr>current_driver := None\<rparr>, truck, bus]"
    by (simp add: fleet_def van_def truck_def bus_def)
  note c = delete_profile_cascade [OF r alice_is_admin p l run]
  from c show ?thesis
    unfolding j vs by (intro conjI) (elim conjE, assumption)+
qed

lemma strip_examples:
  "strip '' KA01AB1234 '' = ''KA01AB1234''" "strip ''Bengaluru '' = ''Bengaluru''"
  "strip ''Atlantis'' = ''Atlantis''" "strip ''KA05MN7777'' = ''KA05MN7777''"
  by (simp_all add: strip_def is_space_def)

subsection \<open>Unique registration numbers\<close>

text \<open>
  C4. When the store holds a vehicle with registration number R and a permitted
  user posts the creation form with a registration number that the field accepts
  as R, no vehicle is created: the form is rendered again with the uniqueness
  error on \<open>registration_no\<close> among its errors, no exception leaves the view, and
  the store, with the vehicle already stored, is exactly as before.
\<close>

theorem add_vehicle_duplicate_registration:
  assumes usr: "req_user request = Some u"
    and gate: "gate_permits s u [''admin'', ''staff'']"
    and post: "req_method request = ''POST''"
    and reg: "clean_char True (Some 30) (f_registration_no d) = Inr R"
    and stored: "stored \<in> set (vehicles s)" "registration_no stored = R"
  shows "add_vehicle e d request s =
           (Inr (Render ''vehicles/add.html'' (VehicleForm_errors s None d)), s)
       \<and> (''registration_no'', Unique) \<in> set (VehicleForm_errors s None d)
       \<and> stored \<in> set (vehicles (snd (add_vehicle e d request s)))"
proof -
  have "list_ex (\<lambda>v. registration_no v = R \<and> Some (vehicle_id v) \<noteq> None) (vehicles s)"
    using stored by (auto simp: list_ex_iff)
  then have "validate_unique s None (clean_char True (Some 30) (f_registration_no d)) =
      [(''registration_no'', Unique)]"
    by (simp add: validate_unique_def reg)
  then have unique: "(''registration_no'', Unique) \<in> set (VehicleForm_errors s None d)"
    by (simp add: VehicleForm_errors_def)
  then have "VehicleForm_errors s None d \<noteq> []"
    by auto
  then have "add_vehicle_view e d request s =
      (Inr (Render ''vehicles/add.html'' (VehicleForm_errors s None d)), s)"
    using post by (simp add: add_vehicle_view_def Let_def)
  then have "add_vehicle e d request s =
      (Inr (Render ''vehicles/add.html'' (VehicleForm_errors s None d)), s)"
    unfolding add_vehicle_def using usr gate by (simp add: role_required_gate)
  with unique stored(1) show ?thesis
    by simp
qed

theorem add_vehicle_duplicate_registration_witness:
  "add_vehicle online (new_car '' KA01AB1234 '' ''Bengaluru'') (post_by (Some sam)) fleet =
     (Inr (Render ''vehicles/add.html'' [(''registration_no'', Unique)]), fleet)
   \<and> van \<in> set (vehicles (snd (add_vehicle online (new_car '' KA01AB1234 '' ''Bengaluru'')
        (post_by (Some sam)) fleet)))"
proof -
  have r: "req_user (post_by (Some sam)) = Some sam" and m: "req_method (post_by (Some sam)) = ''POST''"
    by (simp_all add: post_by_def)
  have c: "clean_char True (Some 30) (f_registration_no (new_car '' KA01AB1234 '' ''Bengaluru'')) =
      Inr ''KA01AB1234''"
    by (simp add: clean_char_def new_car_def strip_examples)
  have v: "van \<in> set (vehicles fleet)" "registration_no van = ''KA01AB1234''"
    by (simp_all add: fleet_def van_def)
  have e: "VehicleForm_errors fleet None (new_car '' KA01AB1234 '' ''Bengaluru'') =
      [(''registration_no'', Unique)]"
    by (simp add: VehicleForm_errors_def field_errors_def clean_char_def clean_year_def
        clean_status_def clean_current_driver_def driver_queryset_def validate_unique_def
        STATUS_CHOICES_def new_car_def strip_examples strip_def is_space_def
        lower_def lower_char_def fleet_defs)
  note dup = add_vehicle_duplicate_registration [OF r sam_is_staff m c v, of online]
  from dup show ?thesis
    unfolding e by (intro conjI) (elim conjE, assumption)+
qed

subsection \<open>Saving a vehicle with a place name\<close>

lemma field_errors_Nil: "field_errors name r = [] \<longleftrightarrow> (\<exists>x. r = Inr x)"
  by (cases r) (simp_all add: field_errors_def)

lemma clean_char_Inr: "clean_char required max_length raw = Inr r \<Longrightarrow> r = strip raw"
  by (auto simp: clean_char_def Let_def split: if_splits option.splits)

lemma construct_vehicle_location:
  "latitude (construct_vehicle s instance d) = latitude instance"
  "longitude (construct_vehicle s instance d) = longitude instance"
  "last_location_time (construct_vehicle s instance d) = last_location_time instance"
  by (simp_all add: construct_vehicle_def set_cleaned_def split: sum.splits)

lemma valid_registration:
  assumes "VehicleForm_errors s instance_pk d = []"
  shows "registration_no (construct_vehicle s instance d) = strip (f_registration_no d)"
    and "\<not> list_ex (\<lambda>r. registration_no r = strip (f_registration_no d)
                         \<and> Some (vehicle_id r) \<noteq> instance_pk) (vehicles s)"
proof -
  from assms obtain reg where reg: "clean_char True (Some 30) (f_registration_no d) = Inr reg"
    by (auto simp: VehicleForm_errors_def field_errors_Nil)
  then have strip: "reg = strip (f_registration_no d)"
    by (rule clean_char_Inr)
  from reg show "registration_no (construct_vehicle s instance d) = strip (f_registration_no d)"
    unfolding strip by (simp add: construct_vehicle_def set_cleaned_def split: sum.splits)
  from assms have "validate_unique s instance_pk (clean_char True (Some 30) (f_registration_no d)) = []"
    by (simp add: VehicleForm_errors_def)
  with reg show "\<not> list_ex (\<lambda>r. registration_no r = strip (f_registration_no d)
                         \<and> Some (vehicle_id r) \<noteq> instance_pk) (vehicles s)"
    unfolding strip by (simp add: validate_unique_def split: if_splits)
qed

lemma save_vehicle_persists:
  assumes "\<not> list_ex (\<lambda>r. registration_no r = registration_no v
                          \<and> Some (vehicle_id r) \<noteq> instance_pk) (vehicles s)"
  shows "\<exists>v' s'. save_vehicle instance_pk v s = Inr (v', s') \<and> v' \<in> set (vehicles s')
           \<and> v' = v\<lparr>vehicle_id := vehicle_id v'\<rparr>"
proof (cases instance_pk)
  case None
  with assms show ?thesis
    by (simp add: save_vehicle_def insert_vehicle_def Let_def)
next
  case (Some pk)
  show ?thesis
  proof (cases "list_ex (\<lambda>r. vehicle_id r = pk) (vehicles s)")
    case True
    then obtain r where "r \<in> set (vehicles s)" "vehicle_id r = pk"
      by (auto simp: list_ex_iff)
    then have "v\<lparr>vehicle_id := pk\<rparr>
        \<in> set (map (\<lambda>r. if vehicle_id r = pk then v\<lparr>vehicle_id := pk\<rparr> else r) (vehicles s))"
      by force
    with assms Some True show ?thesis
      by (simp add: save_vehicle_def Let_def)
  next
    case False
    with assms Some show ?thesis
      by (simp add: save_vehicle_def insert_vehicle_def Let_def)
  qed
qed

text \<open>A form with errors is not saved: \<open>save\<close> raises, and nothing is stored.\<close>

lemma VehicleForm_save_invalid:
  "VehicleForm_errors s instance_pk d \<noteq> [] \<Longrightarrow>
   VehicleForm_save e instance_pk instance0 d commit s = Inl ValueError"
  by (simp add: VehicleForm_save_def ModelForm_save_def)

text \<open>
  C7. Saving a valid vehicle form (the views save no other) with a non-empty place
  name, as an insertion or as an update, always returns a saved vehicle (no
  exception leaves \<open>save\<close>) and that vehicle is a row of the resulting store. If
  the geocoder is available and resolves the place, its latitude, longitude and
  location time are the resolved position and the current time. If the geocoder
  is unavailable, finds nothing or raises, they are what the instance had before.
\<close>

theorem VehicleForm_save_geocoding:
  assumes valid: "VehicleForm_errors s instance_pk d = []"
    and place: "strip (f_place_name d) = place" "place \<noteq> []"
  shows "\<exists>v s'. VehicleForm_save e instance_pk instance0 d True s = Inr (v, s')
           \<and> v \<in> set (vehicles s')
           \<and> registration_no v = strip (f_registration_no d)
           \<and> (\<forall>lat lng. GEOCODER_AVAILABLE e \<and> geocode e place = Inr (Some (lat, lng)) \<longrightarrow>
                  latitude v = Some lat \<and> longitude v = Some lng
                  \<and> last_location_time v = Some (now e))
           \<and> (\<not> GEOCODER_AVAILABLE e \<or> geocode e place = Inr None
                \<or> (\<exists>ex. geocode e place = Inl ex) \<longrightarrow>
                  latitude v = latitude instance0 \<and> longitude v = longitude instance0
                  \<and> last_location_time v = last_location_time instance0)"
proof -
  define base where "base = construct_vehicle s instance0 d"
  define inst where "inst =
    (if GEOCODER_AVAILABLE e then
       (case geocode_instance e place base of Inl ex \<Rightarrow> base | Inr found \<Rightarrow> found)
     else base)"
  have base: "registration_no base = strip (f_registration_no d)"
    "latitude base = latitude instance0" "longitude base = longitude instance0"
    "last_location_time base = last_location_time instance0"
    unfolding base_def
    by (simp_all add: valid_registration(1) [OF valid] construct_vehicle_location)
  have reg: "registration_no inst = strip (f_registration_no d)"
    by (auto simp: inst_def geocode_instance_def base split: sum.splits option.splits)
  have "\<not> list_ex (\<lambda>r. registration_no r = registration_no inst
                          \<and> Some (vehicle_id r) \<noteq> instance_pk) (vehicles s)"
    unfolding reg by (rule valid_registration(2) [OF valid])
  from save_vehicle_persists [OF this]
  obtain v s' where saved: "save_vehicle instance_pk inst s = Inr (v, s')"
    and stored: "v \<in> set (vehicles s')" and same: "v = inst\<lparr>vehicle_id := vehicle_id v\<rparr>"
    by blast
  have run: "VehicleForm_save e instance_pk instance0 d True s = Inr (v, s')"
    using valid place saved unfolding inst_def base_def
    by (auto simp: VehicleForm_save_def ModelForm_save_def Let_def)
  have found: "latitude inst = Some lat \<and> longitude inst = Some lng
      \<and> last_location_time inst = Some (now e)"
    if "GEOCODER_AVAILABLE e \<and> geocode e place = Inr (Some (lat, lng))" for lat lng
    using that by (simp add: inst_def geocode_instance_def)
  have lost: "latitude inst = latitude instance0 \<and> longitude inst = longitude instance0
      \<and> last_location_time inst = last_location_time instance0"
    if "\<not> GEOCODER_AVAILABLE e \<or> geocode e place = Inr None \<or> (\<exists>ex. geocode e place = Inl ex)"
    using that by (auto simp: inst_def geocode_instance_def base)
  have fields: "registration_no v = registration_no inst" "latitude v = latitude inst"
    "longitude v = longitude inst" "last_location_time v = last_location_time inst"
    by (subst same, simp)+
  show ?thesis
    using run stored reg found lost unfolding fields [symmetric] by blast
qed

lemma new_car_valid:
  "VehicleForm_errors fleet None (new_car ''KA05MN7777'' ''Bengaluru '') = []"
  "VehicleForm_errors fleet (Some 2) (new_car ''KA02XY0001'' ''Atlantis'') = []"
  by (simp_all add: VehicleForm_errors_def field_errors_def clean_char_def clean_year_def
      clean_status_def clean_current_driver_def driver_queryset_def validate_unique_def
      STATUS_CHOICES_def new_car_def strip_def is_space_def lower_def lower_char_def fleet_defs)

theorem VehicleForm_save_geocoding_witness:
  "(\<exists>v s'. VehicleForm_save online None new_vehicle (new_car ''KA05MN7777'' ''Bengaluru '') True fleet
             = Inr (v, s')
           \<and> v \<in> set (vehicles s') \<and> registration_no v = ''KA05MN7777''
           \<and> latitude v = Some 12971599 \<and> longitude v = Some 77594566
           \<and> last_location_time v = Some 200)
   \<and> (\<exists>v s'. VehicleForm_save online (Some 2) truck (new_car ''KA02XY0001'' ''Atlantis'') True fleet
             = Inr (v, s')
           \<and> v \<in> set (vehicles s')
           \<and> latitude v = Some 13000000 \<and> longitude v = None \<and> last_location_time v = None)
   \<and> (\<exists>v s'. VehicleForm_save offline None new_vehicle (new_car ''KA05MN7777'' ''Bengaluru '') True fleet
             = Inr (v, s')
           \<and> v \<in> set (vehicles s')
           \<and> latitude v = None \<and> longitude v = None \<and> last_location_time v = None)"
proof (intro conjI)
  have p: "strip (f_place_name (new_car ''KA05MN7777'' ''Bengaluru '')) = ''Bengaluru''"
    "''Bengaluru'' \<noteq> []"
    by (simp_all add: new_car_def strip_examples)
  have g: "GEOCODER_AVAILABLE online \<and> geocode online ''Bengaluru'' = Inr (Some (12971599, 77594566))"
    by (simp add: online_def demo_geocode_def)
  have n: "now online = 200" "strip (f_registration_no (new_car ''KA05MN7777'' ''Bengaluru '')) = ''KA05MN7777''"
    by (simp_all add: online_def new_car_def strip_examples)
  from VehicleForm_save_geocoding [OF new_car_valid(1) p, of online new_vehicle] g
  show "\<exists>v s'. VehicleForm_save online None new_vehicle (new_car ''KA05MN7777'' ''Bengaluru '') True fleet
             = Inr (v, s')
           \<and> v \<in> set (vehicles s') \<and> registration_no v = ''KA05MN7777''
           \<and> latitude v = Some 12971599 \<and> longitude v = Some 77594566
           \<and> last_location_time v = Some 200"
    unfolding n by blast
  have off: "\<not> GEOCODER_AVAILABLE offline"
    by (simp add: offline_def)
  have blank: "latitude new_vehicle = None" "longitude new_vehicle = None"
    "last_location_time new_vehicle = None"
    by (simp_all add: new_vehicle_def)
  from VehicleForm_save_geocoding [OF new_car_valid(1) p, of offline new_vehicle] off
  show "\<exists>v s'. VehicleForm_save offline None new_vehicle (new_car ''KA05MN7777'' ''Bengaluru '') True fleet
             = Inr (v, s')
           \<and> v \<in> set (vehicles s')
           \<and> latitude v = None \<and> longitude v = None \<and> last_location_time v = None"
    unfolding blank by blast
next
  have p: "strip (f_place_name (new_car ''KA02XY0001'' ''Atlantis'')) = ''Atlantis''"
    "''Atlantis'' \<noteq> []"
    by (simp_all add: new_car_def strip_examples)
  have g: "\<exists>ex. geocode online ''Atlantis'' = Inl ex"
    by (simp add: online_def demo_geocode_def)
  have old: "latitude truck = Some 13000000" "longitude truck = None"
    "last_location_time truck = None"
    by (simp_all add: truck_def)
  from VehicleForm_save_geocoding [OF new_car_valid(2) p, of online truck] g
  show "\<exists>v s'. VehicleForm_save online (Some 2) truck (new_car ''KA02XY0001'' ''Atlantis'') True fleet
             = Inr (v, s')
           \<and> v \<in> set (vehicles s')
           \<and> latitude v = Some 13000000 \<and> longitude v = None \<and> last_location_time v = None"
    unfolding old by blast
qed

text \<open>
  The creation view saves only after validation, so whatever is posted, with or
  without a place name, no exception leaves it: it answers with the list
  redirect or with the form again.
\<close>

lemma VehicleForm_save_valid:
  assumes valid: "VehicleForm_errors s instance_pk d = []"
  shows "\<exists>v s'. VehicleForm_save e instance_pk instance0 d True s = Inr (v, s')"
proof -
  define base where "base = construct_vehicle s instance0 d"
  define inst where "inst =
    (if strip (f_place_name d) \<noteq> [] \<and> GEOCODER_AVAILABLE e then
       (case geocode_instance e (strip (f_place_name d)) base of
          Inl ex \<Rightarrow> base
        | Inr found \<Rightarrow> found)
     else base)"
  have "registration_no base = strip (f_registration_no d)"
    unfolding base_def by (rule valid_registration(1) [OF valid])
  then have "registration_no inst = strip (f_registration_no d)"
    by (auto simp: inst_def geocode_instance_def split: sum.splits option.splits)
  then have "\<not> list_ex (\<lambda>r. registration_no r = registration_no inst
                          \<and> Some (vehicle_id r) \<noteq> instance_pk) (vehicles s)"
    using valid_registration(2) [OF valid] by simp
  from save_vehicle_persists [OF this]
  obtain v s' where "save_vehicle instance_pk inst s = Inr (v, s')"
    by blast
  then have "VehicleForm_save e instance_pk instance0 d True s = Inr (v, s')"
    using valid unfolding inst_def base_def
    by (simp add: VehicleForm_save_def ModelForm_save_def Let_def)
  then show ?thesis by blast
qed

lemma add_vehicle_view_returns:
  "\<exists>r s'. add_vehicle_view e d request s = (Inr r, s')"
proof (cases "req_method request = ''POST'' \<and> VehicleForm_errors s None d = []")
  case True
  then obtain v s' where "VehicleForm_save e None new_vehicle d True s = Inr (v, s')"
    using VehicleForm_save_valid by blast
  with True show ?thesis
    by (simp add: add_vehicle_view_def)
next
  case False
  then show ?thesis
    by (auto simp: add_vehicle_view_def Let_def)
qed

subsection \<open>Assignment\<close>

lemma find_key_unique:
  assumes "distinct (map f xs)" and "find (\<lambda>x. f x = k) xs = Some y"
    and "x \<in> set xs" and "f x = k"
  shows "x = y"
proof -
  from assms(2) have "y \<in> set xs" "f y = k"
    by (auto simp: find_Some_iff)
  moreover from assms(1) have "inj_on f (set xs)"
    by (simp add: distinct_map)
  ultimately show ?thesis
    using assms(3,4) by (auto dest: inj_onD)
qed

lemma find_map_replace:
  assumes "find (\<lambda>x. f x = k) xs = Some y" and "f z = k"
  shows "find (\<lambda>x. f x = k) (map (\<lambda>r. if f r = k then z else r) xs) = Some z"
  using assms by (induction xs) (auto split: if_splits)

lemma clean_driver_valid:
  assumes "clean_current_driver s (Some uid) = Inr r"
  shows "has_driver_role s uid"
proof -
  from assms have "list_ex (\<lambda>u. user_id u = uid) (driver_queryset s)"
    by (simp add: clean_current_driver_def split: if_splits)
  then obtain u where "u \<in> set (users s)" "user_id u = uid"
    and "list_ex (\<lambda>p. profile_user p = user_id u \<and> lower (role p) = lower ''driver'') (profiles s)"
    by (auto simp: driver_queryset_def list_ex_iff)
  then show ?thesis
    by (auto simp: has_driver_role_def same_role_def list_ex_iff)
qed

lemma assign_form_valid:
  assumes "AssignVehicleForm_errors s d = []"
  shows "case a_current_driver d of None \<Rightarrow> True | Some uid \<Rightarrow> has_driver_role s uid"
proof (cases "a_current_driver d")
  case None
  then show ?thesis by simp
next
  case (Some uid)
  with assms obtain r where "clean_current_driver s (Some uid) = Inr r"
    by (cases "clean_current_driver s (Some uid)")
       (auto simp: AssignVehicleForm_errors_def field_errors_def)
  then show ?thesis
    using Some by (simp add: clean_driver_valid)
qed

lemma construct_assignment_valid:
  assumes "AssignVehicleForm_errors s d = []"
  shows "construct_assignment s v d = v\<lparr>current_driver := a_current_driver d, status := a_status d\<rparr>"
proof -
  from assms obtain x y where x: "clean_current_driver s (a_current_driver d) = Inr x"
    and y: "clean_status (a_status d) = Inr y"
    by (auto simp: AssignVehicleForm_errors_def field_errors_Nil)
  from x have "x = a_current_driver d"
    by (auto simp: clean_current_driver_def split: option.splits if_splits)
  moreover from y have "y = a_status d"
    by (auto simp: clean_status_def split: if_splits)
  ultimately show ?thesis
    using x y by (simp add: construct_assignment_def set_cleaned_def)
qed

text \<open>The frame property for the view itself, before \<open>role_required\<close> wraps it.\<close>

lemma assign_vehicle_view_frame:
  assumes keys: "distinct (map vehicle_id (vehicles s))"
    and run: "assign_vehicle_view pk d request s = (out, s')"
  shows "map unassigned_part (vehicles s') = map unassigned_part (vehicles s)
       \<and> users s' = users s \<and> profiles s' = profiles s
       \<and> maintenance_logs s' = maintenance_logs s \<and> fuel_logs s' = fuel_logs s
       \<and> (if out = Inr (Redirect ''vehicle_list'')
          then (\<exists>v'. get_vehicle s' pk = Some v' \<and> current_driver v' = a_current_driver d
                  \<and> status v' = a_status d)
               \<and> (case a_current_driver d of None \<Rightarrow> True | Some uid \<Rightarrow> has_driver_role s uid)
          else s' = s)"
proof (cases "get_vehicle s pk")
  case None
  with run show ?thesis
    by (auto simp: assign_vehicle_view_def)
next
  case (Some vehicle)
  then have row: "list_ex (\<lambda>r. vehicle_id r = pk) (vehicles s)" and id: "vehicle_id vehicle = pk"
    by (auto simp: get_vehicle_def find_Some_iff list_ex_iff)
  show ?thesis
  proof (cases "req_method request = ''POST'' \<and> AssignVehicleForm_errors s d = []")
    case False
    with run Some show ?thesis
      by (auto simp: assign_vehicle_view_def Let_def split: if_splits)
  next
    case True
    define v' where "v' = vehicle\<lparr>current_driver := a_current_driver d, status := a_status d\<rparr>"
    have inst: "construct_assignment s vehicle d = v'"
      using True by (simp add: construct_assignment_valid v'_def)
    have view: "assign_vehicle_view pk d request s =
        (case save_vehicle (Some pk) v' s of
           Inl ex \<Rightarrow> (Inl ex, s)
         | Inr (v, s1) \<Rightarrow> (Inr (Redirect ''vehicle_list''), s1))"
      using Some True by (simp add: assign_vehicle_view_def ModelForm_save_def inst)
    show ?thesis
    proof (cases "save_vehicle (Some pk) v' s")
      case (Inl ex)
      with run view have "out = Inl ex" "s' = s"
        by simp_all
      then show ?thesis by auto
    next
      case (Inr saved)
      have keep: "v'\<lparr>vehicle_id := pk\<rparr> = v'"
        using id by (simp add: v'_def)
      from Inr row have "saved =
          (v', s\<lparr>vehicles := map (\<lambda>r. if vehicle_id r = pk then v' else r) (vehicles s)\<rparr>)"
        by (auto simp: save_vehicle_def Let_def keep split: if_splits)
      with run view Inr have out: "out = Inr (Redirect ''vehicle_list'')"
        and s': "s' = s\<lparr>vehicles := map (\<lambda>r. if vehicle_id r = pk then v' else r) (vehicles s)\<rparr>"
        by simp_all
      have same: "unassigned_part v' = unassigned_part vehicle"
        by (simp add: v'_def unassigned_part_def)
      have "unassigned_part (if vehicle_id r = pk then v' else r) = unassigned_part r"
        if "r \<in> set (vehicles s)" for r
      proof (cases "vehicle_id r = pk")
        case True
        with keys Some that have "r = vehicle"
          unfolding get_vehicle_def by (rule find_key_unique)
        with True same show ?thesis by simp
      next
        case False
        then show ?thesis by simp
      qed
      then have frame: "map unassigned_part (vehicles s') = map unassigned_part (vehicles s)"
        by (simp add: s')
      have "vehicle_id v' = pk"
        using id by (simp add: v'_def)
      then have "get_vehicle s' pk = Some v'"
        using Some unfolding get_vehicle_def s' by (simp add: find_map_replace)
      moreover have "current_driver v' = a_current_driver d" "status v' = a_status d"
        by (simp_all add: v'_def)
      moreover note assign_form_valid [of s d] True
      ultimately show ?thesis
        using out frame by (simp add: s')
    qed
  qed
qed

text \<open>
  C8. On a store whose vehicle keys are distinct (they are the primary key), the
  assign operation, whatever the request and the posted form, leaves every
  vehicle's key, registration number, make, model, year, latitude, longitude and
  location time as they were, and leaves users, profiles and logs untouched. When
  it saves (the redirect to the list), the vehicle has the posted driver and
  status, and the posted driver, when not null, is a user with a profile whose
  role is "driver" up to case; when it does not save, the store is unchanged.
\<close>

theorem assign_vehicle_frame:
  assumes keys: "distinct (map vehicle_id (vehicles s))"
    and run: "assign_vehicle pk d request s = (out, s')"
  shows "map unassigned_part (vehicles s') = map unassigned_part (vehicles s)
       \<and> users s' = users s \<and> profiles s' = profiles s
       \<and> maintenance_logs s' = maintenance_logs s \<and> fuel_logs s' = fuel_logs s
       \<and> (if out = Inr (Redirect ''vehicle_list'')
          then (\<exists>v'. get_vehicle s' pk = Some v' \<and> current_driver v' = a_current_driver d
                  \<and> status v' = a_status d)
               \<and> (case a_current_driver d of None \<Rightarrow> True | Some uid \<Rightarrow> has_driver_role s uid)
          else s' = s)"
proof (cases "req_user request")
  case None
  then have "assign_vehicle pk d request s = (Inr (Redirect ''login''), s)"
    unfolding assign_vehicle_def by (rule role_required_anonymous)
  with run show ?thesis by auto
next
  case (Some u)
  show ?thesis
  proof (cases "gate_permits s u [''admin'', ''staff'']")
    case True
    with Some have "assign_vehicle pk d request s = assign_vehicle_view pk d request s"
      unfolding assign_vehicle_def by (simp add: role_required_gate)
    with run have "assign_vehicle_view pk d request s = (out, s')"
      by simp
    with keys show ?thesis
      by (rule assign_vehicle_view_frame)
  next
    case False
    with Some have "assign_vehicle pk d request s = (Inl PermissionDenied, s)"
      unfolding assign_vehicle_def by (simp add: role_required_gate)
    with run show ?thesis by auto
  qed
qed

theorem assign_vehicle_frame_witness:
  "assign_vehicle 3 reassign (post_by (Some sam)) fleet =
     (Inr (Redirect ''vehicle_list''),
      fleet\<lparr>vehicles := [van, truck, bus\<lparr>current_driver := Some 3, status := ''maintenance''\<rparr>]\<rparr>)
   \<and> map unassigned_part [van, truck, bus\<lparr>current_driver := Some 3, status := ''maintenance''\<rparr>] =
       map unassigned_part (vehicles fleet)
   \<and> has_driver_role fleet 3"
proof -
  define after where
    "after = fleet\<lparr>vehicles := [van, truck, bus\<lparr>current_driver := Some 3, status := ''maintenance''\<rparr>]\<rparr>"
  have valid: "AssignVehicleForm_errors fleet reassign = []"
    by (simp add: AssignVehicleForm_errors_def field_errors_def clean_current_driver_def
        clean_status_def STATUS_CHOICES_def driver_queryset_def reassign_def
        lower_def lower_char_def fleet_defs)
  have found: "get_vehicle fleet 3 = Some bus"
    by (simp add: get_vehicle_def fleet_defs)
  have inst: "construct_assignment fleet bus reassign =
      bus\<lparr>current_driver := Some 3, status := ''maintenance''\<rparr>"
    using construct_assignment_valid [OF valid, of bus] by (simp add: reassign_def)
  have saved: "save_vehicle (Some 3) (bus\<lparr>current_driver := Some 3, status := ''maintenance''\<rparr>) fleet =
      Inr (bus\<lparr>current_driver := Some 3, status := ''maintenance''\<rparr>, after)"
    by (simp add: save_vehicle_def Let_def after_def fleet_def van_def truck_def bus_def)
  have "assign_vehicle_view 3 reassign (post_by (Some sam)) fleet =
      (Inr (Redirect ''vehicle_list''), after)"
    by (simp add: assign_vehicle_view_def found valid post_by_def Let_def ModelForm_save_def
        inst saved)
  then have run: "assign_vehicle 3 reassign (post_by (Some sam)) fleet =
      (Inr (Redirect ''vehicle_list''), after)"
    unfolding assign_vehicle_def
    by (simp add: role_required_gate [where u = sam] sam_is_staff post_by_def)
  have keys: "distinct (map vehicle_id (vehicles fleet))"
    by (simp add: fleet_defs)
  have d: "a_current_driver reassign = Some 3"
    by (simp add: reassign_def)
  have vs: "vehicles after = [van, truck, bus\<lparr>current_driver := Some 3, status := ''maintenance''\<rparr>]"
    by (simp add: after_def)
  from assign_vehicle_frame [OF keys run] run show ?thesis
    unfolding vs d after_def by simp
qed

subsection \<open>The vehicle list\<close>

lemma contains_Nil: "contains [] ys"
  by (cases ys) simp_all

lemma matches_query_Nil: "matches_query [] v"
  by (simp add: matches_query_def icontains_def lower_def contains_Nil)

text \<open>
  The two optional filters of the view amount to one selection by the stripped
  query text and the stripped status filter.
\<close>

lemma vehicle_list_view_selected:
  "vehicle_list_view request s =
     (Inr (Render ''vehicles/list.html''
        \<lparr>lc_vehicles = sort_key registration_no (selected (query_text request) (status_filter request) s),
         lc_q = query_text request,
         lc_status_active = status_filter request,
         lc_stats =
           \<lparr>total = length (selected (query_text request) (status_filter request) s),
            assigned = length (filter (\<lambda>v. current_driver v \<noteq> None)
              (selected (query_text request) (status_filter request) s)),
            maintenance = length (filter (\<lambda>v. status v = ''maintenance'')
              (selected (query_text request) (status_filter request) s))\<rparr>\<rparr>), s)"
proof -
  define q where "q = query_text request"
  define st where "st = status_filter request"
  define qs1 where "qs1 =
    (if q \<noteq> [] then
       filter (\<lambda>v. icontains (registration_no v) q \<or> icontains (veh_make v) q \<or> icontains (model v) q)
         (vehicles s)
     else vehicles s)"
  define qs2 where "qs2 = (if st \<noteq> [] then filter (\<lambda>v. status v = st) qs1 else qs1)"
  have "qs1 = filter (matches_query q) (vehicles s)"
  proof (cases "q = []")
    case True
    then show ?thesis
      by (simp add: qs1_def matches_query_Nil)
  next
    case False
    then show ?thesis
      unfolding qs1_def matches_query_def by simp
  qed
  then have "qs2 = selected q st s"
    by (simp add: qs2_def selected_def matches_status_def)
  then show ?thesis
    unfolding q_def st_def qs2_def qs1_def query_text_def status_filter_def
    by (simp add: vehicle_list_view_def Let_def)
qed

text \<open>
  C6, amended. With q the query text and st the status filter after surrounding
  white space is stripped from both, \<open>vehicle_list\<close> on a permitted request
  renders exactly the vehicles whose registration number, make or model contains
  q up to case and, when st is not empty, whose status is st, ordered by
  registration number ascending, with the counts total, assigned and
  in-maintenance taken over those vehicles.
\<close>

theorem vehicle_list_selection:
  assumes "req_user request = Some u" and "gate_permits s u [''admin'', ''staff'']"
  shows "\<exists>ctx. vehicle_list request s = (Inr (Render ''vehicles/list.html'' ctx), s)
           \<and> mset (lc_vehicles ctx) = mset (selected (query_text request) (status_filter request) s)
           \<and> sorted (map registration_no (lc_vehicles ctx))
           \<and> total (lc_stats ctx) = length (selected (query_text request) (status_filter request) s)
           \<and> assigned (lc_stats ctx) =
               length (filter (\<lambda>v. current_driver v \<noteq> None)
                 (selected (query_text request) (status_filter request) s))
           \<and> maintenance (lc_stats ctx) =
               length (filter (\<lambda>v. status v = ''maintenance'')
                 (selected (query_text request) (status_filter request) s))"
proof -
  have "vehicle_list request s = vehicle_list_view request s"
    unfolding vehicle_list_def using assms by (simp add: role_required_gate)
  then show ?thesis
    by (simp add: vehicle_list_view_selected)
qed

text \<open>The padded request: what the view reads, and what it selects from the fleet.\<close>

lemma padded_query_texts:
  "query_text padded_query = ''ka0''" "status_filter padded_query = ''active''"
  by (simp_all add: query_text_def status_filter_def padded_query_def dict_get_def strip_def
      is_space_def)

lemma selected_ka0: "selected ''ka0'' ''active'' fleet = [van]"
  by (simp add: selected_def matches_query_def matches_status_def icontains_def lower_def
      lower_char_def fleet_def van_def truck_def bus_def)

theorem vehicle_list_selection_witness:
  "\<exists>ctx. vehicle_list padded_query fleet = (Inr (Render ''vehicles/list.html'' ctx), fleet)
         \<and> mset (lc_vehicles ctx) = {#van#}
         \<and> sorted (map registration_no (lc_vehicles ctx))
         \<and> total (lc_stats ctx) = 1 \<and> assigned (lc_stats ctx) = 1
         \<and> maintenance (lc_stats ctx) = 0"
proof -
  have r: "req_user padded_query = Some sam"
    by (simp add: padded_query_def)
  have counts: "length (filter (\<lambda>v. current_driver v \<noteq> None) [van]) = 1"
    "length (filter (\<lambda>v. status v = ''maintenance'') [van]) = 0"
    by (simp_all add: van_def)
  from vehicle_list_selection [OF r sam_is_staff] show ?thesis
    unfolding padded_query_texts selected_ka0 counts by simp
qed

text \<open>
  C6, as stated, fails. The request carries the query string " ka0 " and the
  status filter "active " (with the blanks). No vehicle of the fleet contains
  " ka0 " in its registration number, make or model, and none has the status
  "active ": the van in particular matches neither. The list returns the van all
  the same, because the view strips both texts before it filters.
\<close>

theorem vehicle_list_raw_query_counterexample:
  "dict_get (req_GET padded_query) ''q'' [] = '' ka0 ''
   \<and> dict_get (req_GET padded_query) ''status'' [] = ''active ''
   \<and> \<not> matches_query '' ka0 '' van
   \<and> \<not> matches_status ''active '' van
   \<and> selected '' ka0 '' ''active '' fleet = []
   \<and> vehicle_list padded_query fleet =
       (Inr (Render ''vehicles/list.html''
          \<lparr>lc_vehicles = [van], lc_q = ''ka0'', lc_status_active = ''active'',
           lc_stats = \<lparr>total = 1, assigned = 1, maintenance = 0\<rparr>\<rparr>), fleet)"
proof (intro conjI)
  show "dict_get (req_GET padded_query) ''q'' [] = '' ka0 ''"
    and "dict_get (req_GET padded_query) ''status'' [] = ''active ''"
    by (simp_all add: padded_query_def dict_get_def)
  show "\<not> matches_query '' ka0 '' van"
    by (simp add: matches_query_def icontains_def lower_def lower_char_def van_def)
  show "\<not> matches_status ''active '' van"
    by (simp add: matches_status_def van_def)
  show "selected '' ka0 '' ''active '' fleet = []"
    by (simp add: selected_def matches_status_def fleet_def van_def truck_def bus_def)
  have "vehicle_list padded_query fleet = vehicle_list_view padded_query fleet"
    unfolding vehicle_list_def
    by (simp add: role_required_gate [where u = sam] sam_is_staff padded_query_def)
  then show "vehicle_list padded_query fleet =
       (Inr (Render ''vehicles/list.html''
          \<lparr>lc_vehicles = [van], lc_q = ''ka0'', lc_status_active = ''active'',
           lc_stats = \<lparr>total = 1, assigned = 1, maintenance = 0\<rparr>\<rparr>), fleet)"
    by (simp add: vehicle_list_view_selected padded_query_texts selected_ka0 van_def)
qed

end
